theory Spec2Isabelle
  imports Complex_Main "HOL-Library.Sublist"
begin

section \<open>Strings\<close>

text \<open>
  A JavaScript string is modelled as \<^typ>\<open>string\<close>, the list of the bytes of its UTF-8
  encoding. Every needle and every pattern of the program is ASCII, and an ASCII byte never
  occurs inside the encoding of another character, so searching the bytes finds what
  searching the UTF-16 code units finds.
\<close>

text \<open>\<^verbatim>\<open>String.prototype.includes\<close>: the needle occurs as a contiguous run.\<close>

fun str_includes :: "string \<Rightarrow> string \<Rightarrow> bool" where
  "str_includes [] t = (t = [])"
| "str_includes (c # cs) t = (prefix t (c # cs) \<or> str_includes cs t)"

text \<open>The apostrophe and the double quote, which a string literal cannot hold.\<close>

definition apostrophe :: char where
  "apostrophe = CHR 0x27"

definition dquote :: char where
  "dquote = CHR 0x22"

definition newline :: char where
  "newline = CHR 0x0A"

text \<open>The text that follows a literal prefix, when the string starts with it.\<close>

definition after_prefix :: "string \<Rightarrow> string \<Rightarrow> string option" where
  "after_prefix p s = (if prefix p s then Some (drop (length p) s) else None)"

text \<open>
  The group \<^verbatim>\<open>([^']+)\<close> followed by a literal apostrophe: the longest run of characters
  other than the apostrophe is the only one an apostrophe can follow, so the greedy
  match never backtracks. The result is the captured text and what follows the run.
\<close>

definition capture_unquoted :: "string \<Rightarrow> (string \<times> string) option" where
  "capture_unquoted s =
     (let run = takeWhile (\<lambda>c. c \<noteq> apostrophe) s;
          rest = dropWhile (\<lambda>c. c \<noteq> apostrophe) s
      in if run = [] then None else Some (run, rest))"

text \<open>
  \<^verbatim>\<open>String.prototype.match\<close> with a pattern that is not anchored: the pattern is tried
  at every start position, leftmost first.
\<close>

fun first_match :: "(string \<Rightarrow> 'a option) \<Rightarrow> string \<Rightarrow> 'a option" where
  "first_match m [] = m []"
| "first_match m (c # cs) =
     (case m (c # cs) of Some r \<Rightarrow> Some r | None \<Rightarrow> first_match m cs)"

text \<open>\<^verbatim>\<open>Array.prototype.join\<close> on an array of strings.\<close>

fun join :: "string \<Rightarrow> string list \<Rightarrow> string" where
  "join sep [] = []"
| "join sep [x] = x"
| "join sep (x # y # ys) = x @ sep @ join sep (y # ys)"

text \<open>The decimal text of a natural number, as a template literal renders an index.\<close>

definition decimal_digit :: "nat \<Rightarrow> char" where
  "decimal_digit d = char_of (of_char CHR ''0'' + d)"

fun decimal :: "nat \<Rightarrow> string" where
  "decimal n =
     (let units = [decimal_digit (n mod 10)]
      in if n div 10 = 0 then units else decimal (n div 10) @ units)"

text \<open>\<^verbatim>\<open>xs.map((s, i) => `${i + 1}. ${s}`)\<close>, the index starting at \<open>i\<close>.\<close>

fun numbered :: "nat \<Rightarrow> string list \<Rightarrow> string list" where
  "numbered i [] = []"
| "numbered i (s # ss) = (decimal (i + 1) @ ''. '' @ s) # numbered (i + 1) ss"

subsection \<open>Character classes of the regular expressions\<close>

text \<open>\<^verbatim>\<open>\w\<close> is \<^verbatim>\<open>[A-Za-z0-9_]\<close>.\<close>

definition char_between :: "char \<Rightarrow> char \<Rightarrow> char \<Rightarrow> bool" where
  "char_between lo hi c =
     ((of_char lo :: nat) \<le> of_char c \<and> (of_char c :: nat) \<le> of_char hi)"

definition word_char :: "char \<Rightarrow> bool" where
  "word_char c =
     (char_between CHR ''a'' CHR ''z'' c \<or> char_between CHR ''A'' CHR ''Z'' c
      \<or> char_between CHR ''0'' CHR ''9'' c \<or> c = CHR ''_'')"

text \<open>
  \<^verbatim>\<open>\s\<close>: tab, line feed, vertical tab, form feed, carriage return, space, and the
  UTF-8 encodings of U+00A0, U+1680, U+2000 to U+200A, U+2028, U+2029, U+202F, U+205F,
  U+3000 and U+FEFF.
\<close>

definition space_encodings :: "string list" where
  "space_encodings =
     [[CHR 0x09], [CHR 0x0A], [CHR 0x0B], [CHR 0x0C], [CHR 0x0D], [CHR 0x20],
      [CHR 0xC2, CHR 0xA0], [CHR 0xE1, CHR 0x9A, CHR 0x80],
      [CHR 0xE2, CHR 0x80, CHR 0x80], [CHR 0xE2, CHR 0x80, CHR 0x81],
      [CHR 0xE2, CHR 0x80, CHR 0x82], [CHR 0xE2, CHR 0x80, CHR 0x83],
      [CHR 0xE2, CHR 0x80, CHR 0x84], [CHR 0xE2, CHR 0x80, CHR 0x85],
      [CHR 0xE2, CHR 0x80, CHR 0x86], [CHR 0xE2, CHR 0x80, CHR 0x87],
      [CHR 0xE2, CHR 0x80, CHR 0x88], [CHR 0xE2, CHR 0x80, CHR 0x89],
      [CHR 0xE2, CHR 0x80, CHR 0x8A], [CHR 0xE2, CHR 0x80, CHR 0xA8],
      [CHR 0xE2, CHR 0x80, CHR 0xA9], [CHR 0xE2, CHR 0x80, CHR 0xAF],
      [CHR 0xE2, CHR 0x81, CHR 0x9F], [CHR 0xE3, CHR 0x80, CHR 0x80],
      [CHR 0xEF, CHR 0xBB, CHR 0xBF]]"

text \<open>One \<^verbatim>\<open>\s\<close> at the front of the string: the text after it.\<close>

definition space_char :: "string \<Rightarrow> string option" where
  "space_char s =
     map_option (\<lambda>w. drop (length w) s) (find (\<lambda>w. prefix w s) space_encodings)"

text \<open>
  \<^verbatim>\<open>\s*\<close> before something that is not white space: the whole run is taken. The
  fuel is the length of the text, and every step removes at least one byte.
\<close>

fun skip_spaces_upto :: "nat \<Rightarrow> string \<Rightarrow> string" where
  "skip_spaces_upto 0 s = s"
| "skip_spaces_upto (Suc n) s =
     (case space_char s of None \<Rightarrow> s | Some r \<Rightarrow> skip_spaces_upto n r)"

definition skip_spaces :: "string \<Rightarrow> string" where
  "skip_spaces s = skip_spaces_upto (length s) s"

text \<open>\<^verbatim>\<open>RegExp.prototype.test\<close>, and the truth value of \<^verbatim>\<open>String.prototype.match\<close>.\<close>

definition regex_test :: "(string \<Rightarrow> 'a option) \<Rightarrow> string \<Rightarrow> bool" where
  "regex_test m s = (first_match m s \<noteq> None)"

text \<open>
  The line terminators, which \<^verbatim>\<open>.\<close> does not match: line feed, carriage return,
  U+2028 and U+2029.
\<close>

definition line_terminators :: "string list" where
  "line_terminators =
     [[CHR 0x0A], [CHR 0x0D], [CHR 0xE2, CHR 0x80, CHR 0xA8], [CHR 0xE2, CHR 0x80, CHR 0xA9]]"

text \<open>The text up to the first line terminator: all that \<^verbatim>\<open>.*\<close> can cover.\<close>

fun first_line :: "string \<Rightarrow> string" where
  "first_line [] = []"
| "first_line (c # cs) =
     (if list_ex (\<lambda>t. prefix t (c # cs)) line_terminators then [] else c # first_line cs)"

section \<open>The error diagnostic engine\<close>

text \<open>
  \<^verbatim>\<open>/Property '([^']+)' does not exist on type '([^']+)'/\<close> at one start position:
  the two captured groups.
\<close>

definition property_pattern :: "string \<Rightarrow> (string \<times> string) option" where
  "property_pattern s =
     (case after_prefix (''Property '' @ [apostrophe]) s of
        None \<Rightarrow> None
      | Some r1 \<Rightarrow>
          (case capture_unquoted r1 of
             None \<Rightarrow> None
           | Some (prop, r2) \<Rightarrow>
               (case after_prefix ([apostrophe] @ '' does not exist on type '' @ [apostrophe]) r2 of
                  None \<Rightarrow> None
                | Some r3 \<Rightarrow>
                    (case capture_unquoted r3 of
                       None \<Rightarrow> None
                     | Some (type, r4) \<Rightarrow>
                         (if prefix [apostrophe] r4 then Some (prop, type) else None)))))"

text \<open>\<^verbatim>\<open>/Cannot find name '([^']+)'/\<close> at one start position: the captured group.\<close>

definition name_pattern :: "string \<Rightarrow> string option" where
  "name_pattern s =
     (case after_prefix (''Cannot find name '' @ [apostrophe]) s of
        None \<Rightarrow> None
      | Some r1 \<Rightarrow>
          (case capture_unquoted r1 of
             None \<Rightarrow> None
           | Some (name, r2) \<Rightarrow> (if prefix [apostrophe] r2 then Some name else None)))"

record DiagnosticResult =
  fixes' :: "string list"
  explanation :: string

text \<open>
  \<^verbatim>\<open>TypeGenerator.analyzeTypeError\<close>: the chain of \<^verbatim>\<open>if\<close> / \<^verbatim>\<open>else if\<close> in the order
  of the source. \<^verbatim>\<open>fixes\<close> starts empty and \<^verbatim>\<open>explanation\<close> starts as the empty
  string; a branch changes them only where the source assigns them.
\<close>

definition analyzeTypeError :: "string \<Rightarrow> DiagnosticResult" where
  "analyzeTypeError error =
     (if str_includes error ''| undefined'' \<and> str_includes error ''not assignable'' then
        \<lparr>fixes' =
           [''Add null check: if (value !== undefined) { ... }'',
            ''Use non-null assertion if guaranteed: value!'',
            ''Provide default value: value ?? defaultValue'',
            ''Update type to accept undefined: Type | undefined''],
         explanation = ''The value may be undefined. Either guard against it, assert it's defined, provide a default, or update the type signature.''\<rparr>
      else if str_includes error ''null'' \<and> str_includes error ''not assignable'' then
        \<lparr>fixes' =
           [''Add null check: if (value !== null) { ... }'',
            ''Use nullish coalescing: value ?? defaultValue'',
            ''Update type to accept null: Type | null''],
         explanation = ''The value may be null. Handle it explicitly or update the type signature.''\<rparr>
      else if str_includes error ''Property'' \<and> str_includes error ''does not exist'' then
        (case first_match property_pattern error of
           Some (prop, type) \<Rightarrow>
             \<lparr>fixes' =
                [''Add property to interface: '' @ prop @ '': Type'',
                 ''Use type assertion: (obj as any).'' @ prop,
                 ''Optional chaining: obj?.'' @ prop,
                 ''Type guard: if ('' @ [apostrophe] @ prop @ [apostrophe] @ '' in obj) { ... }''],
              explanation = ''The property '' @ [apostrophe] @ prop @ [apostrophe]
                @ '' is not defined on type '' @ [apostrophe] @ type @ [apostrophe]
                @ ''. Add it to the type definition or use runtime checks.''\<rparr>
         | None \<Rightarrow> \<lparr>fixes' = [], explanation = []\<rparr>)
      else if str_includes error ''Argument of type'' \<and> str_includes error ''not assignable'' then
        \<lparr>fixes' =
           [''Type assertion: value as ExpectedType'',
            ''Type guard to narrow type before call'',
            ''Update function parameter type'',
            ''Convert value to expected type''],
         explanation = ''The argument type doesn't match the parameter type. Convert the value or update type signatures.''\<rparr>
      else if str_includes error ''any''
              \<and> (str_includes error ''implicitly'' \<or> str_includes error ''not allowed'') then
        \<lparr>fixes' =
           [''Add explicit type annotation'',
            ''Use unknown instead of any'',
            ''Define proper interface for the object''],
         explanation = ''Using '' @ [dquote] @ ''any'' @ [dquote] @ '' defeats TypeScript's type safety. Add explicit types or use ''
           @ [dquote] @ ''unknown'' @ [dquote] @ '' with type guards.''\<rparr>
      else if str_includes error ''Cannot find name'' then
        \<lparr>fixes' =
           (case first_match name_pattern error of
              Some name \<Rightarrow>
                [''Import the identifier: import { '' @ name @ '' } from '' @ [apostrophe] @ ''...'' @ [apostrophe],
                 ''Define the identifier: const '' @ name @ '' = ...'',
                 ''Check for typos in the identifier name'']
            | None \<Rightarrow> []),
         explanation = ''The identifier is not defined in the current scope. Import it or define it.''\<rparr>
      else
        \<lparr>fixes' =
           [''Review type signatures and ensure compatibility'',
            ''Use type assertions if you're certain of the type'',
            ''Add type guards for runtime type checking''],
         explanation = ''Type mismatch detected. Review the types involved and ensure they're compatible.''\<rparr>)"

section \<open>Values and the platform\<close>

text \<open>
  The values the program inspects: the values of JSON (\<^verbatim>\<open>null\<close>, booleans, numbers,
  strings, arrays, objects), \<^verbatim>\<open>undefined\<close> (what reading an absent property gives),
  and the two further primitives whose runtime tag the generator names. A number is
  a rational: the program only asks for its tag, so the two values that are not
  numbers of JSON (NaN and the infinities) are left out. An object is the list of its
  own entries in the order \<^verbatim>\<open>Object.entries\<close> lists them, each key once.
\<close>

datatype jsval =
    JUndefined
  | JNull
  | JBool bool
  | JNum rat
  | JBigInt int
  | JStr string
  | JSymbol string
  | JArr "jsval list"
  | JObj "(string \<times> jsval) list"

text \<open>What the program throws: instances of \<^verbatim>\<open>Error\<close>, each with its message.\<close>

datatype js_error = Error string | TypeError string | SyntaxError string | RangeError string

fun message :: "js_error \<Rightarrow> string" where
  "message (Error m) = m"
| "message (TypeError m) = m"
| "message (SyntaxError m) = m"
| "message (RangeError m) = m"

text \<open>
  The parts of the JavaScript platform the program calls and this theory does not
  define. Every theorem holds for every platform.
  \<^item> \<open>JSON_parse\<close>: \<^verbatim>\<open>JSON.parse\<close>; \<open>Inl\<close> is the message of the syntax error it throws.
  \<^item> \<open>URL_parses\<close>: whether \<^verbatim>\<open>new URL(value)\<close> returns.
  \<^item> \<open>ToString\<close>: the text a template literal gives a value that is not a string, or
    the type error it throws (for an object whose \<^verbatim>\<open>toString\<close> and \<^verbatim>\<open>valueOf\<close> give
    no primitive, such as the value of \<^verbatim>\<open>{"toString": 1}\<close>).
  \<^item> \<open>stack_room\<close>: the number of nested calls of \<^verbatim>\<open>inferType\<close> the call stack has
    room for when \<^verbatim>\<open>generate\<close> runs, and \<open>overflow_message\<close>: the message of the
    range error thrown when a call finds no room.
  \<^item> \<open>nullish_message\<close>: the message of the type error thrown when a property (the
    second argument) is read from \<^verbatim>\<open>null\<close> or \<^verbatim>\<open>undefined\<close> (the first).
  \<^item> \<open>untyped_call\<close>: what a tool handler (named by the first argument) does with
    arguments (the second) whose values are not of the types its input schema declares:
    the thrown error, or the text it returns.
\<close>

record platform =
  JSON_parse :: "string \<Rightarrow> string + jsval"
  URL_parses :: "string \<Rightarrow> bool"
  ToString :: "jsval \<Rightarrow> js_error + string"
  nullish_message :: "jsval \<Rightarrow> string \<Rightarrow> string"
  untyped_call :: "string \<Rightarrow> jsval \<Rightarrow> js_error + string"
  stack_room :: nat
  overflow_message :: string

section \<open>The type inference engine\<close>

record TypeGenerationOptions =
  name_opt :: "string option"
  strict_opt :: "bool option"
  readonly_opt :: "bool option"
  exactOptionalPropertyTypes_opt :: "bool option"

text \<open>\<^verbatim>\<open>[...new Set(xs)]\<close>: the distinct elements in the order of their first occurrence.\<close>

definition Set_spread :: "'a list \<Rightarrow> 'a list" where
  "Set_spread xs = foldl (\<lambda>seen x. if x \<in> set seen then seen else seen @ [x]) [] xs"

text \<open>\<^verbatim>\<open>TypeGenerator.isReservedWord\<close>.\<close>

definition reserved :: "string list" where
  "reserved =
     [''break'', ''case'', ''catch'', ''class'', ''const'', ''continue'', ''debugger'',
      ''default'', ''delete'', ''do'', ''else'', ''enum'', ''export'', ''extends'', ''false'',
      ''finally'', ''for'', ''function'', ''if'', ''import'', ''in'', ''instanceof'', ''new'',
      ''null'', ''return'', ''super'', ''switch'', ''this'', ''throw'', ''true'', ''try'',
      ''typeof'', ''var'', ''void'', ''while'', ''with'', ''as'', ''implements'', ''interface'',
      ''let'', ''package'', ''private'', ''protected'', ''public'', ''static'', ''yield'',
      ''any'', ''boolean'', ''constructor'', ''declare'', ''get'', ''module'', ''require'',
      ''number'', ''set'', ''string'', ''symbol'', ''type'', ''from'', ''of'']"

definition isReservedWord :: "string \<Rightarrow> bool" where
  "isReservedWord word = (word \<in> set reserved)"

text \<open>
  \<^verbatim>\<open>TypeGenerator.needsQuotes\<close>. The pattern \<^verbatim>\<open>/^[a-zA-Z_$][a-zA-Z0-9_$]*$/\<close> is
  anchored at both ends.
\<close>

definition identifier_start :: "char \<Rightarrow> bool" where
  "identifier_start c =
     (char_between CHR ''a'' CHR ''z'' c \<or> char_between CHR ''A'' CHR ''Z'' c
      \<or> c = CHR ''_'' \<or> c = CHR ''$'')"

definition identifier_part :: "char \<Rightarrow> bool" where
  "identifier_part c =
     (char_between CHR ''a'' CHR ''z'' c \<or> char_between CHR ''A'' CHR ''Z'' c
      \<or> char_between CHR ''0'' CHR ''9'' c \<or> c = CHR ''_'' \<or> c = CHR ''$'')"

definition identifier_pattern :: "string \<Rightarrow> bool" where
  "identifier_pattern key =
     (case key of [] \<Rightarrow> False | c # cs \<Rightarrow> identifier_start c \<and> list_all identifier_part cs)"

definition needsQuotes :: "string \<Rightarrow> bool" where
  "needsQuotes key = (\<not> identifier_pattern key \<or> isReservedWord key)"

text \<open>The key as it is rendered: \<^verbatim>\<open>needsQuotes(key) ? `"${key}"` : key\<close>.\<close>

definition safeKey :: "string \<Rightarrow> string" where
  "safeKey key = (if needsQuotes key then [dquote] @ key @ [dquote] else key)"

text \<open>\<^verbatim>\<open>TypeGenerator.isURL\<close>: the constructor of the platform returns or throws.\<close>

definition isURL :: "platform \<Rightarrow> string \<Rightarrow> bool" where
  "isURL P v = URL_parses P v"

text \<open>
  \<^verbatim>\<open>TypeGenerator.isEmail\<close>, the pattern \<^verbatim>\<open>/^[^\s@]+@[^\s@]+\.[^\s@]+$/\<close>: the text
  splits at an at sign and at a later full stop into three parts, each of which is not
  empty and holds neither white space nor an at sign.
\<close>

definition email_part :: "string \<Rightarrow> bool" where
  "email_part x =
     (x \<noteq> [] \<and> \<not> str_includes x ''@'' \<and> \<not> list_ex (\<lambda>w. str_includes x w) space_encodings)"

definition isEmail :: "string \<Rightarrow> bool" where
  "isEmail v =
     list_ex
       (\<lambda>i. v ! i = CHR ''@'' \<and> email_part (take i v)
            \<and> list_ex
                 (\<lambda>j. v ! j = CHR ''.'' \<and> email_part (take (j - (i + 1)) (drop (i + 1) v))
                      \<and> email_part (drop (j + 1) v))
                 [i + 1 ..< length v])
       [0 ..< length v]"

text \<open>
  \<^verbatim>\<open>TypeGenerator.isUUID\<close>, the pattern
  \<^verbatim>\<open>/^[0-9a-f]{8}-[0-9a-f]{4}-[0-9a-f]{4}-[0-9a-f]{4}-[0-9a-f]{12}$/i\<close>.
\<close>

definition hex_digit :: "char \<Rightarrow> bool" where
  "hex_digit c =
     (char_between CHR ''0'' CHR ''9'' c \<or> char_between CHR ''a'' CHR ''f'' c
      \<or> char_between CHR ''A'' CHR ''F'' c)"

text \<open>Exactly \<open>n\<close> hexadecimal digits at the front: the text after them.\<close>

definition hex_digits :: "nat \<Rightarrow> string \<Rightarrow> string option" where
  "hex_digits n s =
     (if n \<le> length s \<and> list_all hex_digit (take n s) then Some (drop n s) else None)"

definition isUUID :: "string \<Rightarrow> bool" where
  "isUUID v =
     (Option.bind (hex_digits 8 v) (\<lambda>r1.
      Option.bind (after_prefix ''-'' r1) (\<lambda>r2.
      Option.bind (hex_digits 4 r2) (\<lambda>r3.
      Option.bind (after_prefix ''-'' r3) (\<lambda>r4.
      Option.bind (hex_digits 4 r4) (\<lambda>r5.
      Option.bind (after_prefix ''-'' r5) (\<lambda>r6.
      Option.bind (hex_digits 4 r6) (\<lambda>r7.
      Option.bind (after_prefix ''-'' r7) (\<lambda>r8.
      hex_digits 12 r8)))))))) = Some [])"

text \<open>\<^verbatim>\<open>Number.isInteger\<close> on a number of JSON.\<close>

definition Number_isInteger :: "rat \<Rightarrow> bool" where
  "Number_isInteger n = (snd (quotient_of n) = 1)"

text \<open>
  \<^verbatim>\<open>TypeGenerator.inferPrimitiveType\<close>: the chain of tests on \<^verbatim>\<open>typeof value\<close>. The
  last equation is the final \<^verbatim>\<open>return 'unknown'\<close>, reached by the values whose tag is
  \<^verbatim>\<open>undefined\<close> or \<^verbatim>\<open>object\<close>.
\<close>

fun inferPrimitiveType :: "platform \<Rightarrow> jsval \<Rightarrow> string" where
  "inferPrimitiveType P (JStr v) =
     (if isURL P v then ''string''
      else if isEmail v then ''string''
      else if isUUID v then ''string''
      else ''string'')"
| "inferPrimitiveType P (JNum v) = (if Number_isInteger v then ''number'' else ''number'')"
| "inferPrimitiveType P (JBool v) = ''boolean''"
| "inferPrimitiveType P (JBigInt v) = ''bigint''"
| "inferPrimitiveType P (JSymbol v) = ''symbol''"
| "inferPrimitiveType P v = ''unknown''"

text \<open>
  \<^verbatim>\<open>TypeGenerator.inferType\<close>. The tests come in the order of the source: \<^verbatim>\<open>null\<close>,
  \<^verbatim>\<open>undefined\<close>, arrays, objects, and the primitives last.
\<close>

fun inferType :: "platform \<Rightarrow> jsval \<Rightarrow> bool \<Rightarrow> TypeGenerationOptions \<Rightarrow> string" where
  "inferType P JNull strict options = (if strict then ''null'' else ''null | undefined'')"
| "inferType P JUndefined strict options = ''undefined''"
| "inferType P (JArr items) strict options =
     (if length items = 0 then (if strict then ''never[]'' else ''unknown[]'')
      else (let types = Set_spread (map (inferPrimitiveType P) items)
            in if length types = 1 then types ! 0 @ ''[]''
               else ''('' @ join '' | '' types @ '')[]''))"
| "inferType P (JObj entries) strict options =
     (let props = map (\<lambda>kv. safeKey (fst kv) @ '': '' @ inferType P (snd kv) strict options) entries
      in ''{ '' @ join ''; '' props @ '' }'')"
| "inferType P v strict options = inferPrimitiveType P v"

text \<open>
  The array \<^verbatim>\<open>properties\<close> of \<^verbatim>\<open>generateInterface\<close>: one line for each entry of the
  object.
\<close>

definition properties :: "platform \<Rightarrow> (string \<times> jsval) list \<Rightarrow> bool \<Rightarrow> TypeGenerationOptions \<Rightarrow> string list" where
  "properties P entries strict options =
     map (\<lambda>kv.
            (let propType = inferType P (snd kv) strict options;
                 readonly = (if readonly_opt options = Some True then ''readonly '' else []);
                 sk = safeKey (fst kv)
             in ''  '' @ readonly @ sk @ '': '' @ propType @ '';''))
         entries"

text \<open>\<^verbatim>\<open>TypeGenerator.generateInterface\<close>.\<close>

fun generateInterface :: "platform \<Rightarrow> string \<Rightarrow> jsval \<Rightarrow> bool \<Rightarrow> TypeGenerationOptions \<Rightarrow> string" where
  "generateInterface P name JNull strict options = ''type '' @ name @ '' = null;''"
| "generateInterface P name (JArr items) strict options =
     (if length items = 0 then ''type '' @ name @ '' = unknown[];''
      else (let itemType = inferType P (items ! 0) strict options
            in ''type '' @ name @ '' = '' @ itemType @ ''[];''))"
| "generateInterface P name (JObj entries) strict options =
     ''interface '' @ name @ '' {'' @ [newline]
     @ join [newline] (properties P entries strict options) @ [newline] @ ''}''"
| "generateInterface P name obj strict options =
     ''type '' @ name @ '' = '' @ inferType P obj strict options @ '';''"

text \<open>
  \<^verbatim>\<open>TypeGenerator.generate\<close>. \<open>declared_name\<close> is \<^verbatim>\<open>options.name || 'Generated'\<close>,
  \<open>is_strict\<close> is \<^verbatim>\<open>options.strict !== false\<close>, and \<open>parsed_data\<close> is the first
  statement of the \<^verbatim>\<open>try\<close> block: a string is parsed, any other value is taken as it
  is. This is \<^verbatim>\<open>generate\<close> on a call stack with room for every nested call: then
  nothing in \<^verbatim>\<open>generateInterface\<close> throws, and the \<^verbatim>\<open>catch\<close> block is entered
  exactly when the parser throws. The call stack of bounded depth follows below
  (\<open>generate_within\<close>).
\<close>

definition declared_name :: "TypeGenerationOptions \<Rightarrow> string" where
  "declared_name options =
     (case name_opt options of
        None \<Rightarrow> ''Generated''
      | Some n \<Rightarrow> (if n = [] then ''Generated'' else n))"

definition is_strict :: "TypeGenerationOptions \<Rightarrow> bool" where
  "is_strict options = (strict_opt options \<noteq> Some False)"

definition parsed_data :: "platform \<Rightarrow> jsval \<Rightarrow> string + jsval" where
  "parsed_data P data = (case data of JStr s \<Rightarrow> JSON_parse P s | _ \<Rightarrow> Inr data)"

definition generate :: "platform \<Rightarrow> jsval \<Rightarrow> TypeGenerationOptions \<Rightarrow> js_error + string" where
  "generate P data options =
     (let name = declared_name options;
          strict = is_strict options
      in case parsed_data P data of
           Inl m \<Rightarrow> Inl (Error (''Invalid JSON data: '' @ m))
         | Inr parsed \<Rightarrow> Inr (generateInterface P name parsed strict options))"

subsection \<open>The call stack of bounded depth\<close>

text \<open>
  \<^verbatim>\<open>inferType\<close> calls itself for every value of an object, from inside the callback
  of \<^verbatim>\<open>map\<close>. The engine throws a range error when a call finds no room on the call
  stack, and the \<^verbatim>\<open>try\<close> block of \<^verbatim>\<open>generate\<close> holds the call of
  \<^verbatim>\<open>generateInterface\<close>, so that error reaches the \<^verbatim>\<open>catch\<close> block too.
\<close>

text \<open>
  \<^verbatim>\<open>Array.prototype.map\<close> with a callback that may throw: the elements are visited in
  order, and the first error leaves the loop.
\<close>

fun collect :: "('a \<Rightarrow> js_error + 'b) \<Rightarrow> 'a list \<Rightarrow> js_error + 'b list" where
  "collect f [] = Inr []"
| "collect f (x # xs) =
     (case f x of
        Inl e \<Rightarrow> Inl e
      | Inr y \<Rightarrow> (case collect f xs of Inl e \<Rightarrow> Inl e | Inr ys \<Rightarrow> Inr (y # ys)))"

text \<open>
  \<^verbatim>\<open>TypeGenerator.inferType\<close> with room for \<open>room\<close> nested calls of itself. A call
  without room throws. The branches that do not call \<^verbatim>\<open>inferType\<close> again are those
  of \<open>inferType\<close> above.
\<close>

fun inferType_within ::
  "platform \<Rightarrow> nat \<Rightarrow> jsval \<Rightarrow> bool \<Rightarrow> TypeGenerationOptions \<Rightarrow> js_error + string" where
  "inferType_within P 0 v strict options = Inl (RangeError (overflow_message P))"
| "inferType_within P (Suc room) (JObj entries) strict options =
     (case collect
             (\<lambda>kv. case inferType_within P room (snd kv) strict options of
                     Inl e \<Rightarrow> Inl e
                   | Inr t \<Rightarrow> Inr (safeKey (fst kv) @ '': '' @ t))
             entries of
        Inl e \<Rightarrow> Inl e
      | Inr props \<Rightarrow> Inr (''{ '' @ join ''; '' props @ '' }''))"
| "inferType_within P (Suc room) v strict options = Inr (inferType P v strict options)"

text \<open>\<^verbatim>\<open>TypeGenerator.generateInterface\<close> with room for \<open>room\<close> nested calls of \<^verbatim>\<open>inferType\<close>.\<close>

fun generateInterface_within ::
  "platform \<Rightarrow> nat \<Rightarrow> string \<Rightarrow> jsval \<Rightarrow> bool \<Rightarrow> TypeGenerationOptions \<Rightarrow> js_error + string" where
  "generateInterface_within P room name JNull strict options = Inr (''type '' @ name @ '' = null;'')"
| "generateInterface_within P room name (JArr items) strict options =
     (if length items = 0 then Inr (''type '' @ name @ '' = unknown[];'')
      else (case inferType_within P room (items ! 0) strict options of
              Inl e \<Rightarrow> Inl e
            | Inr itemType \<Rightarrow> Inr (''type '' @ name @ '' = '' @ itemType @ ''[];'')))"
| "generateInterface_within P room name (JObj entries) strict options =
     (case collect
             (\<lambda>kv. case inferType_within P room (snd kv) strict options of
                     Inl e \<Rightarrow> Inl e
                   | Inr propType \<Rightarrow>
                       (let readonly = (if readonly_opt options = Some True then ''readonly '' else []);
                            sk = safeKey (fst kv)
                        in Inr (''  '' @ readonly @ sk @ '': '' @ propType @ '';'')))
             entries of
        Inl e \<Rightarrow> Inl e
      | Inr props \<Rightarrow>
          Inr (''interface '' @ name @ '' {'' @ [newline] @ join [newline] props @ [newline] @ ''}''))"
| "generateInterface_within P room name obj strict options =
     (case inferType_within P room obj strict options of
        Inl e \<Rightarrow> Inl e
      | Inr t \<Rightarrow> Inr (''type '' @ name @ '' = '' @ t @ '';''))"

text \<open>
  \<^verbatim>\<open>TypeGenerator.generate\<close> on the call stack of the platform: what the parser
  throws and what \<^verbatim>\<open>generateInterface\<close> throws are both caught and thrown again as
  \<^verbatim>\<open>new Error(`Invalid JSON data: ${error.message}`)\<close>.
\<close>

definition generate_within :: "platform \<Rightarrow> jsval \<Rightarrow> TypeGenerationOptions \<Rightarrow> js_error + string" where
  "generate_within P data options =
     (let name = declared_name options;
          strict = is_strict options
      in case parsed_data P data of
           Inl m \<Rightarrow> Inl (Error (''Invalid JSON data: '' @ m))
         | Inr parsed \<Rightarrow>
             (case generateInterface_within P (stack_room P) name parsed strict options of
                Inl e \<Rightarrow> Inl (Error (''Invalid JSON data: '' @ message e))
              | Inr generated \<Rightarrow> Inr generated))"

text \<open>
  The number of nested calls of \<^verbatim>\<open>inferType\<close> a value needs: one for the value, and
  for an object as many more as the value of its deepest entry needs. \<open>root_needs\<close> is the
  number \<^verbatim>\<open>generateInterface\<close> needs for a root value.
\<close>

fun needs_room :: "jsval \<Rightarrow> nat" where
  "needs_room (JObj entries) = Suc (fold max (map (\<lambda>kv. needs_room (snd kv)) entries) 0)"
| "needs_room v = Suc 0"

fun root_needs :: "jsval \<Rightarrow> nat" where
  "root_needs JNull = 0"
| "root_needs (JArr items) = (if length items = 0 then 0 else needs_room (items ! 0))"
| "root_needs (JObj entries) = fold max (map (\<lambda>kv. needs_room (snd kv)) entries) 0"
| "root_needs obj = needs_room obj"

text \<open>An object nested \<open>n\<close> times in objects, each with the one key \<^verbatim>\<open>a\<close>.\<close>

fun nested_object :: "nat \<Rightarrow> jsval" where
  "nested_object 0 = JObj []"
| "nested_object (Suc n) = JObj [(''a'', nested_object n)]"

section \<open>The heuristic analysis pipeline\<close>

subsection \<open>The patterns\<close>

text \<open>
  \<^verbatim>\<open>/function\s+\w+\([^)]*\)\s*{/\<close> at one start position. Each repetition is
  followed by a character outside its class, so the longest run is the only one that can
  match.
\<close>

definition function_pattern :: "string \<Rightarrow> unit option" where
  "function_pattern s =
     (case after_prefix ''function'' s of
        None \<Rightarrow> None
      | Some r1 \<Rightarrow>
          (case space_char r1 of
             None \<Rightarrow> None
           | Some r1' \<Rightarrow>
               (let r2 = skip_spaces r1';
                    name = takeWhile word_char r2;
                    r3 = dropWhile word_char r2
                in if name = [] then None
                   else (case after_prefix ''('' r3 of
                           None \<Rightarrow> None
                         | Some r4 \<Rightarrow>
                             (case after_prefix '')'' (dropWhile (\<lambda>c. c \<noteq> CHR '')'') r4) of
                                None \<Rightarrow> None
                              | Some r5 \<Rightarrow>
                                  (if prefix ''{'' (skip_spaces r5) then Some () else None))))))"

text \<open>\<^verbatim>\<open>/const \w+ = \{/\<close> at one start position.\<close>

definition const_object_pattern :: "string \<Rightarrow> unit option" where
  "const_object_pattern s =
     (case after_prefix ''const '' s of
        None \<Rightarrow> None
      | Some r1 \<Rightarrow>
          (if takeWhile word_char r1 = [] then None
           else if prefix '' = {'' (dropWhile word_char r1) then Some () else None))"

text \<open>\<^verbatim>\<open>/: \w+/\<close> at one start position.\<close>

definition annotation_pattern :: "string \<Rightarrow> unit option" where
  "annotation_pattern s =
     (case after_prefix '': '' s of
        None \<Rightarrow> None
      | Some r1 \<Rightarrow> (if takeWhile word_char r1 = [] then None else Some ()))"

text \<open>\<^verbatim>\<open>/interface.*extends/\<close> at one start position.\<close>

definition interface_extends_pattern :: "string \<Rightarrow> unit option" where
  "interface_extends_pattern s =
     (case after_prefix ''interface'' s of
        None \<Rightarrow> None
      | Some r1 \<Rightarrow> (if str_includes (first_line r1) ''extends'' then Some () else None))"

subsection \<open>The symbols of the messages\<close>

definition check_mark :: string where
  "check_mark = [CHR 0xE2, CHR 0x9C, CHR 0x85]"

definition warning_sign :: string where
  "warning_sign = [CHR 0xE2, CHR 0x9A, CHR 0xA0, CHR 0xEF, CHR 0xB8, CHR 0x8F]"

definition memo :: string where
  "memo = [CHR 0xF0, CHR 0x9F, CHR 0x93, CHR 0x9D]"

definition light_bulb :: string where
  "light_bulb = [CHR 0xF0, CHR 0x9F, CHR 0x92, CHR 0xA1]"

definition arrows :: string where
  "arrows = [CHR 0xF0, CHR 0x9F, CHR 0x94, CHR 0x84]"

definition cross_mark :: string where
  "cross_mark = [CHR 0xE2, CHR 0x9D, CHR 0x8C]"

definition gear :: string where
  "gear = [CHR 0xE2, CHR 0x9A, CHR 0x99, CHR 0xEF, CHR 0xB8, CHR 0x8F]"

definition dart :: string where
  "dart = [CHR 0xF0, CHR 0x9F, CHR 0x8E, CHR 0xAF]"

definition wrench :: string where
  "wrench = [CHR 0xF0, CHR 0x9F, CHR 0x94, CHR 0xA7]"

definition books :: string where
  "books = [CHR 0xF0, CHR 0x9F, CHR 0x93, CHR 0x9A]"

subsection \<open>Refactor advisories\<close>

text \<open>
  \<^verbatim>\<open>TSPilotMCP.handleRefactorSafe\<close> on a snippet that is a string: the array
  \<^verbatim>\<open>suggestions\<close> after the six tests, each of which pushes at most one message.
\<close>

definition refactor_suggestions :: "string \<Rightarrow> string list" where
  "refactor_suggestions code =
     (if str_includes code ''any''
      then [warning_sign @ ''  Replace `any` types with specific types or `unknown`''] else [])
     @ (if str_includes code ''as any''
        then [warning_sign @ ''  Remove unsafe type assertions (`as any`) and use proper type guards'']
        else [])
     @ (if regex_test function_pattern code \<and> \<not> str_includes code '': ''
        then [memo @ '' Add return type annotations to functions for better type safety''] else [])
     @ (if str_includes code ''?.'' \<and> \<not> str_includes code ''??''
        then [light_bulb @ '' Consider using nullish coalescing (`??`) with optional chaining for defaults'']
        else [])
     @ (if regex_test const_object_pattern code
        then [light_bulb @ '' Consider defining explicit interfaces for object literals used multiple times'']
        else [])
     @ (if str_includes code ''Promise'' \<and> \<not> str_includes code ''async''
        then [light_bulb @ '' Use async/await instead of raw Promises for better readability'']
        else [])"

definition no_refactoring :: string where
  "no_refactoring = check_mark @ '' Code looks good! No major refactoring suggestions.''"

definition handleRefactorSafe :: "string \<Rightarrow> string" where
  "handleRefactorSafe code =
     (let suggestions = refactor_suggestions code
      in if length suggestions = 0 then no_refactoring
         else ''## '' @ arrows @ '' Type-Safe Refactoring Suggestions'' @ [newline, newline]
              @ join [newline] (numbered 0 suggestions))"

subsection \<open>Generic-opportunity advisories\<close>

definition generic_suggestions :: "string \<Rightarrow> string list" where
  "generic_suggestions code =
     (if str_includes code ''function'' \<and> str_includes code ''unknown''
      then [''Replace `unknown` with generic type parameter:'' @ [newline]
            @ ''```typescript'' @ [newline]
            @ ''function process<T>(data: T): T {'' @ [newline]
            @ ''  return data;'' @ [newline]
            @ ''}'' @ [newline]
            @ ''```'']
      else [])
     @ (if str_includes code ''any[]'' \<or> str_includes code ''unknown[]''
        then [''Use generic array types:'' @ [newline]
              @ ''```typescript'' @ [newline]
              @ ''function filter<T>(items: T[], predicate: (item: T) => boolean): T[] {'' @ [newline]
              @ ''  return items.filter(predicate);'' @ [newline]
              @ ''}'' @ [newline]
              @ ''```'']
        else [])
     @ (if regex_test interface_extends_pattern code
        then [''Consider generic constraints for reusable interfaces:'' @ [newline]
              @ ''```typescript'' @ [newline]
              @ ''interface Repository<T extends { id: number }> {'' @ [newline]
              @ ''  findById(id: number): Promise<T>;'' @ [newline]
              @ ''  save(entity: T): Promise<T>;'' @ [newline]
              @ ''}'' @ [newline]
              @ ''```'']
        else [])"

definition no_generics :: string where
  "no_generics = light_bulb @ '' No obvious generic opportunities found. Consider making reusable functions generic when they work with multiple types.''"

definition handleSuggestGenerics :: "string \<Rightarrow> string" where
  "handleSuggestGenerics code =
     (let suggestions = generic_suggestions code
      in if length suggestions = 0 then no_generics
         else ''## '' @ dart @ '' Generic Type Suggestions'' @ [newline, newline]
              @ join [newline, newline] suggestions)"

subsection \<open>Strict-mode compliance issues\<close>

definition strict_issues :: "string \<Rightarrow> string list" where
  "strict_issues code =
     (if str_includes code '': any''
      then [cross_mark @ '' Explicit `any` type found - violates strict mode''] else [])
     @ (if str_includes code ''as any''
        then [cross_mark @ '' Unsafe type assertion `as any` - defeats type safety''] else [])
     @ (if \<not> regex_test annotation_pattern code \<and> str_includes code ''=''
        then [warning_sign @ ''  Missing type annotations on variables''] else [])
     @ (if str_includes code ''function'' \<and> \<not> str_includes code '': ''
        then [warning_sign @ ''  Missing return type annotations on functions''] else [])
     @ (if str_includes code ''null'' \<and> \<not> str_includes code ''| null''
        then [warning_sign @ ''  Potential null values not reflected in types''] else [])
     @ (if str_includes code ''undefined'' \<and> \<not> str_includes code ''| undefined''
           \<and> \<not> str_includes code ''?:''
        then [warning_sign @ ''  Potential undefined values not reflected in types''] else [])"

definition strict_compliant :: string where
  "strict_compliant = check_mark @ '' Code is strict mode compliant! No issues found.''"

definition strict_recommendation :: string where
  "strict_recommendation =
     [newline, newline] @ ''**Recommendation:**'' @ [newline]
     @ ''Enable strict mode in tsconfig.json:'' @ [newline]
     @ ''```json'' @ [newline]
     @ ''{'' @ [newline]
     @ ''  '' @ [dquote] @ ''compilerOptions'' @ [dquote] @ '': {'' @ [newline]
     @ ''    '' @ [dquote] @ ''strict'' @ [dquote] @ '': true,'' @ [newline]
     @ ''    '' @ [dquote] @ ''noImplicitAny'' @ [dquote] @ '': true,'' @ [newline]
     @ ''    '' @ [dquote] @ ''strictNullChecks'' @ [dquote] @ '': true'' @ [newline]
     @ ''  }'' @ [newline]
     @ ''}'' @ [newline]
     @ ''```''"

definition handleCheckStrict :: "string \<Rightarrow> string" where
  "handleCheckStrict code =
     (let issues = strict_issues code
      in if length issues = 0 then strict_compliant
         else ''## '' @ gear @ ''  Strict Mode Compliance Check'' @ [newline, newline]
              @ join [newline] (numbered 0 issues) @ strict_recommendation)"

section \<open>The framework pattern catalogue\<close>

datatype FrameworkPattern =
  FrameworkPattern
    (pattern_framework: string)
    (pattern_name: string)
    (pattern_code: string)
    (pattern_description: string)

text \<open>\<^verbatim>\<open>FrameworkPatterns.getReactPatterns\<close>.\<close>

definition getReactPatterns :: "FrameworkPattern list" where
  "getReactPatterns =
     [FrameworkPattern ''react''
        ''Component Props''
        (join [newline]
          [''interface ButtonProps {'',
           ''  variant: 'primary' | 'secondary' | 'danger';'',
           ''  size?: 'sm' | 'md' | 'lg';'',
           ''  disabled?: boolean;'',
           ''  onClick: (event: React.MouseEvent<HTMLButtonElement>) => void;'',
           ''  children: React.ReactNode;'',
           ''}'',
           [],
           ''export function Button({ variant, size = 'md', disabled, onClick, children }: ButtonProps) {'',
           ''  return <button onClick={onClick} disabled={disabled}>{children}</button>;'',
           ''}''])
        ''Strict prop types with union literals and proper event handlers'',
      FrameworkPattern ''react''
        ''useState with explicit type''
        (join [newline]
          [''interface User {'',
           ''  id: number;'',
           ''  name: string;'',
           ''  email: string;'',
           ''}'',
           [],
           ''function UserProfile() {'',
           ''  const [user, setUser] = useState<User | null>(null);'',
           ''  const [isLoading, setIsLoading] = useState<boolean>(false);'',
           [],
           ''  return <div>{user?.name}</div>;'',
           ''}''])
        (''Explicitly typed useState hooks prevent '' @ [dquote] @ ''any'' @ [dquote] @ '' types''),
      FrameworkPattern ''react''
        ''useRef with DOM elements''
        (join [newline]
          [''function VideoPlayer() {'',
           ''  const videoRef = useRef<HTMLVideoElement>(null);'',
           [],
           ''  const handlePlay = () => {'',
           ''    videoRef.current?.play();'',
           ''  };'',
           [],
           ''  return <video ref={videoRef} />;'',
           ''}''])
        ''Properly typed refs with null safety'',
      FrameworkPattern ''react''
        ''Generic component''
        (join [newline]
          [''interface SelectProps<T> {'',
           ''  options: T[];'',
           ''  value: T;'',
           ''  onChange: (value: T) => void;'',
           ''  getLabel: (option: T) => string;'',
           ''}'',
           [],
           ''function Select<T>({ options, value, onChange, getLabel }: SelectProps<T>) {'',
           ''  return ('',
           ''    <select value={String(value)} onChange={(e) => {'',
           ''      const option = options.find(o => String(o) === e.target.value);'',
           ''      if (option) onChange(option);'',
           ''    }}>'',
           ''      {options.map((opt, i) => ('',
           ''        <option key={i} value={String(opt)}>{getLabel(opt)}</option>'',
           ''      ))}'',
           ''    </select>'',
           ''  );'',
           ''}''])
        ''Generic components for reusable, type-safe UI elements'']"

text \<open>\<^verbatim>\<open>FrameworkPatterns.getNextJSPatterns\<close>.\<close>

definition getNextJSPatterns :: "FrameworkPattern list" where
  "getNextJSPatterns =
     [FrameworkPattern ''nextjs''
        ''Page Props (App Router)''
        (join [newline]
          [''interface PageProps {'',
           ''  params: { slug: string };'',
           ''  searchParams: { [key: string]: string | string[] | undefined };'',
           ''}'',
           [],
           ''export default async function Page({ params, searchParams }: PageProps) {'',
           ''  const data = await fetchData(params.slug);'',
           ''  return <div>{data.title}</div>;'',
           ''}''])
        ''Properly typed Next.js App Router page props'',
      FrameworkPattern ''nextjs''
        ''Server Actions''
        (join [newline]
          [([apostrophe] @ ''use server';''),
           [],
           ''import { z } from 'zod';'',
           [],
           ''const formSchema = z.object({'',
           ''  email: z.string().email(),'',
           ''  password: z.string().min(8),'',
           ''});'',
           [],
           ''type FormData = z.infer<typeof formSchema>;'',
           [],
           ''export async function loginAction(formData: FormData): Promise<{ success: boolean; error?: string }> {'',
           ''  const validated = formSchema.safeParse(formData);'',
           ''  if (!validated.success) {'',
           ''    return { success: false, error: validated.error.message };'',
           ''  }'',
           [],
           ''  // Process login'',
           ''  return { success: true };'',
           ''}''])
        ''Type-safe server actions with Zod validation'',
      FrameworkPattern ''nextjs''
        ''API Route Handler''
        (join [newline]
          [''import { NextRequest, NextResponse } from 'next/server';'',
           [],
           ''interface ResponseData {'',
           ''  message: string;'',
           ''  data?: unknown;'',
           ''}'',
           [],
           ''export async function GET(request: NextRequest): Promise<NextResponse<ResponseData>> {'',
           ''  const searchParams = request.nextUrl.searchParams;'',
           ''  const id = searchParams.get('id');'',
           [],
           ''  return NextResponse.json({ message: 'Success', data: { id } });'',
           ''}'',
           [],
           ''export async function POST(request: NextRequest): Promise<NextResponse<ResponseData>> {'',
           ''  const body: unknown = await request.json();'',
           ''  // Validate body'',
           ''  return NextResponse.json({ message: 'Created' }, { status: 201 });'',
           ''}''])
        ''Typed API route handlers with proper request/response types'']"

text \<open>\<^verbatim>\<open>FrameworkPatterns.getExpressPatterns\<close>.\<close>

definition getExpressPatterns :: "FrameworkPattern list" where
  "getExpressPatterns =
     [FrameworkPattern ''express''
        ''Typed Request Handler''
        (join [newline]
          [''import { Request, Response, NextFunction } from 'express';'',
           [],
           ''interface CreateUserRequest {'',
           ''  name: string;'',
           ''  email: string;'',
           ''}'',
           [],
           ''interface UserResponse {'',
           ''  id: number;'',
           ''  name: string;'',
           ''  email: string;'',
           ''  createdAt: string;'',
           ''}'',
           [],
           ''app.post('/users', async ('',
           ''  req: Request<{}, UserResponse, CreateUserRequest>,'',
           ''  res: Response<UserResponse>,'',
           ''  next: NextFunction'',
           '') => {'',
           ''  try {'',
           ''    const user = await createUser(req.body);'',
           ''    res.status(201).json(user);'',
           ''  } catch (error) {'',
           ''    next(error);'',
           ''  }'',
           ''});''])
        ''Fully typed Express route handlers with generics'',
      FrameworkPattern ''express''
        ''Custom Request Type''
        (join [newline]
          [''import { Request } from 'express';'',
           [],
           ''interface AuthenticatedRequest<T = unknown> extends Request {'',
           ''  user?: {'',
           ''    id: number;'',
           ''    email: string;'',
           ''    roles: string[];'',
           ''  };'',
           ''  body: T;'',
           ''}'',
           [],
           ''app.post('/protected', (req: AuthenticatedRequest<{ action: string }>, res) => {'',
           ''  if (!req.user) {'',
           ''    return res.status(401).json({ error: 'Unauthorized' });'',
           ''  }'',
           [],
           ''  console.log(req.user.id, req.body.action);'',
           ''  res.json({ success: true });'',
           ''});''])
        ''Extend Request type for authentication and custom properties'']"

text \<open>\<^verbatim>\<open>FrameworkPatterns.getNodeJSPatterns\<close>.\<close>

definition getNodeJSPatterns :: "FrameworkPattern list" where
  "getNodeJSPatterns =
     [FrameworkPattern ''nodejs''
        ''Async Error Handling''
        (join [newline]
          [''async function processData<T>(data: T): Promise<Result<ProcessedData, Error>> {'',
           ''  try {'',
           ''    const processed = await heavyOperation(data);'',
           ''    return { success: true, data: processed };'',
           ''  } catch (error) {'',
           ''    return { success: false, error: error instanceof Error ? error : new Error(String(error)) };'',
           ''  }'',
           ''}'',
           [],
           ''type Result<T, E> ='',
           ''  | { success: true; data: T }'',
           ''  | { success: false; error: E };''])
        ''Type-safe error handling with discriminated unions'',
      FrameworkPattern ''nodejs''
        ''Environment Variables''
        (join [newline]
          [''import { z } from 'zod';'',
           [],
           ''const envSchema = z.object({'',
           ''  NODE_ENV: z.enum(['development', 'production', 'test']),'',
           ''  PORT: z.coerce.number().int().positive(),'',
           ''  DATABASE_URL: z.string().url(),'',
           ''  API_KEY: z.string().min(1),'',
           ''});'',
           [],
           ''export type Env = z.infer<typeof envSchema>;'',
           [],
           ''export const env: Env = envSchema.parse(process.env);''])
        ''Validated environment variables with type safety'']"

text \<open>\<^verbatim>\<open>FrameworkPatterns.getVuePatterns\<close>.\<close>

definition getVuePatterns :: "FrameworkPattern list" where
  "getVuePatterns =
     [FrameworkPattern ''vue''
        ''Component Props (Composition API)''
        (join [newline]
          [''import { defineComponent, PropType } from 'vue';'',
           [],
           ''interface User {'',
           ''  id: number;'',
           ''  name: string;'',
           ''}'',
           [],
           ''export default defineComponent({'',
           ''  props: {'',
           ''    user: {'',
           ''      type: Object as PropType<User>,'',
           ''      required: true'',
           ''    },'',
           ''    showEmail: {'',
           ''      type: Boolean,'',
           ''      default: false'',
           ''    }'',
           ''  },'',
           ''  setup(props) {'',
           ''    // props.user is typed as User'',
           ''    console.log(props.user.name);'',
           ''  }'',
           ''});''])
        ''Type-safe Vue component props with PropType'']"

text \<open>\<^verbatim>\<open>FrameworkPatterns.getAngularPatterns\<close>.\<close>

definition getAngularPatterns :: "FrameworkPattern list" where
  "getAngularPatterns =
     [FrameworkPattern ''angular''
        ''Component with Service''
        (join [newline]
          [''import { Component, OnInit } from '@angular/core';'',
           ''import { Observable } from 'rxjs';'',
           [],
           ''interface User {'',
           ''  id: number;'',
           ''  name: string;'',
           ''  email: string;'',
           ''}'',
           [],
           ''@Component({'',
           ''  selector: 'app-user-list','',
           (''  template: `<div *ngFor='' @ [dquote] @ ''let user of users$ | async'' @ [dquote] @ ''>{{ user.name }}</div>`''),
           ''})'',
           ''export class UserListComponent implements OnInit {'',
           ''  users$: Observable<User[]>;'',
           [],
           ''  constructor(private userService: UserService) {}'',
           [],
           ''  ngOnInit(): void {'',
           ''    this.users$ = this.userService.getUsers();'',
           ''  }'',
           ''}''])
        ''Type-safe Angular component with RxJS observables'']"
text \<open>\<^verbatim>\<open>FrameworkPatterns.getPatterns\<close>.\<close>

definition getPatterns :: "string \<Rightarrow> FrameworkPattern list" where
  "getPatterns framework =
     (if framework = ''react'' then getReactPatterns
      else if framework = ''nextjs'' then getNextJSPatterns
      else if framework = ''express'' then getExpressPatterns
      else if framework = ''nodejs'' then getNodeJSPatterns
      else if framework = ''vue'' then getVuePatterns
      else if framework = ''angular'' then getAngularPatterns
      else [])"

section \<open>The tool handlers\<close>

text \<open>
  Each handler is defined on arguments of the types its input schema declares. What
  the handler does with other arguments is the platform's \<open>untyped_call\<close>.
\<close>

text \<open>\<^verbatim>\<open>TSPilotMCP.handleGenerateTypes\<close>, after the options are read from the arguments.\<close>

definition handleGenerateTypes :: "platform \<Rightarrow> jsval \<Rightarrow> TypeGenerationOptions \<Rightarrow> js_error + string" where
  "handleGenerateTypes P data options =
     (case generate_within P data options of
        Inl e \<Rightarrow> Inl e
      | Inr generated \<Rightarrow>
          Inr (''## '' @ dart @ '' Generated TypeScript Types'' @ [newline, newline]
               @ ''```typescript'' @ [newline] @ generated @ [newline] @ ''```'' @ [newline, newline]
               @ check_mark @ '' Generated with strict type safety (no `any` types)''))"

text \<open>\<^verbatim>\<open>TSPilotMCP.handleFixTypeErrors\<close> on a message that is a string.\<close>

definition handleFixTypeErrors :: "string \<Rightarrow> string" where
  "handleFixTypeErrors error =
     (let analysis = analyzeTypeError error
      in ''## '' @ wrench @ '' Type Error Analysis'' @ [newline, newline]
         @ ''**Error:**'' @ [newline] @ ''`'' @ error @ ''`'' @ [newline, newline]
         @ ''**Explanation:**'' @ [newline] @ explanation analysis @ [newline, newline]
         @ ''**Suggested Fixes:**'' @ [newline]
         @ concat (map (\<lambda>l. [newline] @ l) (numbered 0 (fixes' analysis))))"

text \<open>
  \<^verbatim>\<open>framework.charAt(0).toUpperCase() + framework.slice(1)\<close>. It is reached only for
  the six names of the catalogue, which start with a lower-case ASCII letter.
\<close>

definition capitalize :: "string \<Rightarrow> string" where
  "capitalize s =
     (case s of
        [] \<Rightarrow> []
      | c # cs \<Rightarrow> (if char_between CHR ''a'' CHR ''z'' c
                  then char_of (of_char c - (32 :: nat)) else c) # cs)"

text \<open>The loop body of \<^verbatim>\<open>patterns.forEach\<close>: the text one pattern adds.\<close>

fun pattern_sections :: "nat \<Rightarrow> FrameworkPattern list \<Rightarrow> string" where
  "pattern_sections i [] = []"
| "pattern_sections i (p # ps) =
     ''### '' @ decimal (i + 1) @ ''. '' @ pattern_name p @ [newline, newline]
     @ pattern_description p @ [newline, newline]
     @ ''```typescript'' @ [newline] @ pattern_code p @ [newline] @ ''```'' @ [newline, newline]
     @ pattern_sections (i + 1) ps"

text \<open>\<^verbatim>\<open>TSPilotMCP.handleFrameworkPatterns\<close> on a framework name that is a string.\<close>

definition handleFrameworkPatterns :: "string \<Rightarrow> string" where
  "handleFrameworkPatterns framework =
     (let patterns = getPatterns framework
      in if length patterns = 0 then ''No patterns found for framework: '' @ framework
         else ''## '' @ books @ '' '' @ capitalize framework @ '' TypeScript Patterns''
              @ [newline, newline] @ pattern_sections 0 patterns)"

section \<open>The dispatch loop\<close>

subsection \<open>Reading requests\<close>

definition nullish :: "jsval \<Rightarrow> bool" where
  "nullish v = (v = JUndefined \<or> v = JNull)"

text \<open>
  Reading one of the properties the program reads (\<^verbatim>\<open>id\<close>, \<^verbatim>\<open>method\<close>,
  \<^verbatim>\<open>params\<close>, \<^verbatim>\<open>name\<close>, \<^verbatim>\<open>arguments\<close> and the argument names of the tools) from
  a value that is neither \<^verbatim>\<open>null\<close> nor \<^verbatim>\<open>undefined\<close>: an object gives the value
  of its entry, or \<^verbatim>\<open>undefined\<close> when it has none; no other value has a property of
  one of these names.
\<close>

definition js_get :: "jsval \<Rightarrow> string \<Rightarrow> jsval" where
  "js_get v k =
     (case v of
        JObj entries \<Rightarrow> (case map_of entries k of None \<Rightarrow> JUndefined | Some x \<Rightarrow> x)
      | _ \<Rightarrow> JUndefined)"

text \<open>Reading a property of any value: \<^verbatim>\<open>null\<close> and \<^verbatim>\<open>undefined\<close> throw.\<close>

definition get_prop :: "platform \<Rightarrow> jsval \<Rightarrow> string \<Rightarrow> js_error + jsval" where
  "get_prop P v k =
     (if nullish v then Inl (TypeError (nullish_message P v k)) else Inr (js_get v k))"

text \<open>A value inside a template literal: its text, or the error the conversion throws.\<close>

definition to_text :: "platform \<Rightarrow> jsval \<Rightarrow> js_error + string" where
  "to_text P v = (case v of JStr s \<Rightarrow> Inr s | _ \<Rightarrow> ToString P v)"

subsection \<open>Responses\<close>

text \<open>
  The three shapes of response the server builds: \<^verbatim>\<open>{ jsonrpc, id, result }\<close>,
  \<^verbatim>\<open>{ jsonrpc, id, error: { code, message } }\<close> and the empty object
  \<^verbatim>\<open>{} as MCPResponse\<close>.
\<close>

datatype MCPResponse =
    ResultResponse jsval jsval
  | ErrorResponse jsval int string
  | EmptyResponse

text \<open>\<^verbatim>\<open>TSPilotMCP.initialize\<close>.\<close>

definition initialize :: "jsval \<Rightarrow> MCPResponse" where
  "initialize request =
     ResultResponse (js_get request ''id'')
       (JObj [(''protocolVersion'', JStr ''2025-06-18''),
              (''capabilities'', JObj [(''tools'', JObj [])]),
              (''serverInfo'', JObj [(''name'', JStr ''ts-pilot''), (''version'', JStr ''1.0.0'')])])"

text \<open>One entry of the tool list, and one property of its input schema.\<close>

definition schema_property :: "string \<Rightarrow> string \<Rightarrow> jsval" where
  "schema_property type description =
     JObj [(''type'', JStr type), (''description'', JStr description)]"

definition tool_entry :: "string \<Rightarrow> string \<Rightarrow> (string \<times> jsval) list \<Rightarrow> string list \<Rightarrow> jsval" where
  "tool_entry name description props required =
     JObj [(''name'', JStr name),
           (''description'', JStr description),
           (''inputSchema'',
              JObj [(''type'', JStr ''object''),
                    (''properties'', JObj props),
                    (''required'', JArr (map JStr required))])]"

text \<open>\<^verbatim>\<open>TSPilotMCP.listTools\<close>.\<close>

definition listTools :: "jsval \<Rightarrow> MCPResponse" where
  "listTools request =
     ResultResponse (js_get request ''id'')
       (JObj [(''tools'', JArr
          [tool_entry ''generate_types''
             ''Generate strict TypeScript types from JSON data or API responses''
             [(''data'', schema_property ''string'' ''JSON data to generate types from''),
              (''name'', schema_property ''string'' ''Interface/type name (default: Generated)''),
              (''strict'', schema_property ''boolean'' ''Use strict mode (default: true)''),
              (''readonly'', schema_property ''boolean'' ''Make properties readonly (default: false)'')]
             [''data''],
           tool_entry ''fix_type_errors''
             ''Diagnose TypeScript type errors and suggest multiple fixes with explanations''
             [(''error'', schema_property ''string'' ''TypeScript error message'')]
             [''error''],
           tool_entry ''refactor_safe''
             ''Suggest type-preserving refactoring improvements for TypeScript code''
             [(''code'', schema_property ''string'' ''TypeScript code to analyze for refactoring'')]
             [''code''],
           tool_entry ''suggest_generics''
             ''Analyze code and suggest generic type parameters with constraints''
             [(''code'', schema_property ''string'' ''TypeScript code to analyze for generic opportunities'')]
             [''code''],
           tool_entry ''check_strict''
             ''Check code for strict mode compliance and suggest improvements''
             [(''code'', schema_property ''string'' ''TypeScript code to check for strict mode compliance'')]
             [''code''],
           tool_entry ''framework_patterns''
             ''Get framework-specific TypeScript patterns and best practices''
             [(''framework'',
                 JObj [(''type'', JStr ''string''),
                       (''enum'', JArr (map JStr [''react'', ''nextjs'', ''express'', ''nodejs'', ''vue'', ''angular''])),
                       (''description'', JStr ''Framework to get patterns for'')])]
             [''framework'']])])"

subsection \<open>Calling a tool\<close>

text \<open>
  An optional argument of a declared type: absent, of the type, or of another type
  (\<open>None\<close>).
\<close>

definition optional_string :: "jsval \<Rightarrow> string option option" where
  "optional_string v =
     (case v of JUndefined \<Rightarrow> Some None | JStr s \<Rightarrow> Some (Some s) | _ \<Rightarrow> None)"

definition optional_bool :: "jsval \<Rightarrow> bool option option" where
  "optional_bool v =
     (case v of JUndefined \<Rightarrow> Some None | JBool b \<Rightarrow> Some (Some b) | _ \<Rightarrow> None)"

text \<open>
  A handler that destructures one string argument from \<^verbatim>\<open>args\<close>: the destructuring
  throws when \<^verbatim>\<open>args\<close> is \<^verbatim>\<open>null\<close> or \<^verbatim>\<open>undefined\<close>.
\<close>

definition with_string_argument ::
  "platform \<Rightarrow> string \<Rightarrow> string \<Rightarrow> (string \<Rightarrow> string) \<Rightarrow> jsval \<Rightarrow> js_error + string" where
  "with_string_argument P tool key handler args =
     (if nullish args then Inl (TypeError (nullish_message P args key))
      else (case js_get args key of
              JStr s \<Rightarrow> Inr (handler s)
            | _ \<Rightarrow> untyped_call P tool args))"

text \<open>
  The first statement of \<^verbatim>\<open>handleGenerateTypes\<close>,
  \<^verbatim>\<open>const { data, name, strict, readonly } = args\<close>, and the call of the generator
  with \<^verbatim>\<open>{ name, strict, readonly }\<close>.
\<close>

definition generate_types_call :: "platform \<Rightarrow> jsval \<Rightarrow> js_error + string" where
  "generate_types_call P args =
     (if nullish args then Inl (TypeError (nullish_message P args ''data''))
      else (case (optional_string (js_get args ''name''),
                  optional_bool (js_get args ''strict''),
                  optional_bool (js_get args ''readonly'')) of
              (Some name, Some strict, Some readonly) \<Rightarrow>
                handleGenerateTypes P (js_get args ''data'')
                  \<lparr>name_opt = name, strict_opt = strict, readonly_opt = readonly,
                   exactOptionalPropertyTypes_opt = None\<rparr>
            | _ \<Rightarrow> untyped_call P ''generate_types'' args))"

text \<open>
  The \<^verbatim>\<open>switch\<close> of \<^verbatim>\<open>callTool\<close>: the text the handler returns, or what is thrown
  inside the inner \<^verbatim>\<open>try\<close> block.
\<close>

definition tool_text :: "platform \<Rightarrow> jsval \<Rightarrow> jsval \<Rightarrow> js_error + string" where
  "tool_text P name args =
     (if name = JStr ''generate_types'' then generate_types_call P args
      else if name = JStr ''fix_type_errors''
        then with_string_argument P ''fix_type_errors'' ''error'' handleFixTypeErrors args
      else if name = JStr ''refactor_safe''
        then with_string_argument P ''refactor_safe'' ''code'' handleRefactorSafe args
      else if name = JStr ''suggest_generics''
        then with_string_argument P ''suggest_generics'' ''code'' handleSuggestGenerics args
      else if name = JStr ''check_strict''
        then with_string_argument P ''check_strict'' ''code'' handleCheckStrict args
      else if name = JStr ''framework_patterns''
        then with_string_argument P ''framework_patterns'' ''framework'' handleFrameworkPatterns args
      else (case to_text P name of
              Inl e \<Rightarrow> Inl e
            | Inr t \<Rightarrow> Inl (Error (''Unknown tool: '' @ t))))"

text \<open>
  \<^verbatim>\<open>TSPilotMCP.callTool\<close>. The destructuring of \<^verbatim>\<open>request.params\<close> stands before
  the inner \<^verbatim>\<open>try\<close> block: what it throws leaves the function (\<open>Inl\<close>). What the
  handler throws is caught and becomes the error response with the code -32603.
\<close>

definition callTool :: "platform \<Rightarrow> jsval \<Rightarrow> js_error + MCPResponse" where
  "callTool P request =
     (let params = js_get request ''params''
      in if nullish params then Inl (TypeError (nullish_message P params ''name''))
         else (let name = js_get params ''name'';
                   args = js_get params ''arguments''
               in case tool_text P name args of
                    Inr result \<Rightarrow>
                      Inr (ResultResponse (js_get request ''id'')
                             (JObj [(''content'',
                                       JArr [JObj [(''type'', JStr ''text''),
                                                   (''text'', JStr result)]])]))
                  | Inl e \<Rightarrow> Inr (ErrorResponse (js_get request ''id'') (- 32603) (message e))))"

subsection \<open>Handling a request\<close>

text \<open>
  \<^verbatim>\<open>TSPilotMCP.handleRequest\<close> on a request that is neither \<^verbatim>\<open>null\<close> nor
  \<^verbatim>\<open>undefined\<close> (the line handler has read \<^verbatim>\<open>request.id\<close> before the call): the
  \<^verbatim>\<open>switch\<close> on the method, inside the \<^verbatim>\<open>try\<close> block whose \<^verbatim>\<open>catch\<close> builds
  the error response with the code -32603.
\<close>

definition handleRequest :: "platform \<Rightarrow> jsval \<Rightarrow> MCPResponse" where
  "handleRequest P request =
     (let method = js_get request ''method''
      in if method = JStr ''initialize'' then initialize request
         else if method = JStr ''notifications/initialized'' then EmptyResponse
         else if method = JStr ''tools/list'' then listTools request
         else if method = JStr ''tools/call'' then
           (case callTool P request of
              Inr response \<Rightarrow> response
            | Inl e \<Rightarrow> ErrorResponse (js_get request ''id'') (- 32603) (message e))
         else (case to_text P method of
                 Inr t \<Rightarrow> ErrorResponse (js_get request ''id'') (- 32601) (''Method not found: '' @ t)
               | Inl e \<Rightarrow> ErrorResponse (js_get request ''id'') (- 32603) (message e)))"

subsection \<open>The line handler\<close>

text \<open>
  What one input line writes: a response on the standard output (the protocol
  channel, \<^verbatim>\<open>console.log(JSON.stringify(response))\<close>) or an error on the standard
  error (\<^verbatim>\<open>console.error\<close>).
\<close>

datatype io_event = Stdout MCPResponse | Stderr js_error

text \<open>
  The handler of \<^verbatim>\<open>rl.on('line', ...)\<close>. The line is parsed; reading \<^verbatim>\<open>request.id\<close>
  throws when the parsed value is \<^verbatim>\<open>null\<close>; a request without an identifier is
  handled and its response dropped; any other response is written.
\<close>

definition on_line :: "platform \<Rightarrow> string \<Rightarrow> io_event list" where
  "on_line P line =
     (case JSON_parse P line of
        Inl m \<Rightarrow> [Stderr (SyntaxError m)]
      | Inr request \<Rightarrow>
          (case get_prop P request ''id'' of
             Inl e \<Rightarrow> [Stderr e]
           | Inr ident \<Rightarrow>
               (if ident = JUndefined
                then (let response = handleRequest P request in [])
                else (let response = handleRequest P request in [Stdout response]))))"

text \<open>The responses written on the protocol channel.\<close>

fun stdout_of :: "io_event list \<Rightarrow> MCPResponse list" where
  "stdout_of [] = []"
| "stdout_of (Stdout r # outs) = r # stdout_of outs"
| "stdout_of (Stderr e # outs) = stdout_of outs"

text \<open>A request carries an identifier when reading \<^verbatim>\<open>request.id\<close> gives a value.\<close>

definition carries_identifier :: "jsval \<Rightarrow> bool" where
  "carries_identifier request = (\<not> nullish request \<and> js_get request ''id'' \<noteq> JUndefined)"

text \<open>
  The identifier a response carries. A result response and an error response carry
  the identifier they were built with; the empty object carries none.
\<close>

fun response_id :: "MCPResponse \<Rightarrow> jsval option" where
  "response_id (ResultResponse i r) = Some i"
| "response_id (ErrorResponse i c m) = Some i"
| "response_id EmptyResponse = None"

text \<open>The method names and the tool names of the two \<^verbatim>\<open>switch\<close> statements.\<close>

definition method_names :: "string list" where
  "method_names = [''initialize'', ''notifications/initialized'', ''tools/list'', ''tools/call'']"

definition tool_names :: "string list" where
  "tool_names =
     [''generate_types'', ''fix_type_errors'', ''refactor_safe'', ''suggest_generics'',
      ''check_strict'', ''framework_patterns'']"

section \<open>The type expressions of the specification\<close>

text \<open>
  The specification describes the output of the generator as a declaration over type
  expressions (its section 3): primitives, arrays, unions, inline records, the literals
  \<^verbatim>\<open>null\<close> and \<^verbatim>\<open>undefined\<close>, and the two types of an empty array. The definitions
  of this section follow that data model, so that the text the code builds can be
  compared with the rendering of such a declaration. An inline record is the list of
  its fields, each a key as it is rendered and a type; a field of a record declaration
  has the read-only flag as well.
\<close>

datatype TypeExpr =
    Primitive string
  | ArrayOf TypeExpr
  | UnionOf "TypeExpr list"
  | InlineRecord "(string \<times> TypeExpr) list"
  | LiteralNull
  | LiteralUndefined
  | NeverArray
  | UnknownArray

datatype TypeDeclaration =
    Alias string TypeExpr
  | RecordType string "(bool \<times> string \<times> TypeExpr) list"

text \<open>The text of a type expression. The union under an array is parenthesized.\<close>

fun render :: "TypeExpr \<Rightarrow> string" where
  "render (Primitive n) = n"
| "render (ArrayOf (UnionOf ts)) = ''('' @ join '' | '' (map render ts) @ '')[]''"
| "render (ArrayOf t) = render t @ ''[]''"
| "render (UnionOf ts) = join '' | '' (map render ts)"
| "render (InlineRecord fs) =
     ''{ '' @ join ''; '' (map (\<lambda>f. fst f @ '': '' @ render (snd f)) fs) @ '' }''"
| "render LiteralNull = ''null''"
| "render LiteralUndefined = ''undefined''"
| "render NeverArray = ''never[]''"
| "render UnknownArray = ''unknown[]''"

fun render_declaration :: "TypeDeclaration \<Rightarrow> string" where
  "render_declaration (Alias n t) = ''type '' @ n @ '' = '' @ render t @ '';''"
| "render_declaration (RecordType n fs) =
     ''interface '' @ n @ '' {'' @ [newline]
     @ join [newline]
         (map (\<lambda>f. ''  '' @ (if fst f then ''readonly '' else []) @ fst (snd f) @ '': ''
                    @ render (snd (snd f)) @ '';'') fs)
     @ [newline] @ ''}''"

text \<open>
  The names of the primitive types. The unconstrained type \<^verbatim>\<open>any\<close> is not one of
  them.
\<close>

definition primitive_names :: "string list" where
  "primitive_names = [''string'', ''number'', ''boolean'', ''bigint'', ''symbol'', ''unknown'']"

text \<open>
  A type expression is concrete when each of its primitives is one of these names, and
  a declaration when each of its types is.
\<close>

fun concrete :: "TypeExpr \<Rightarrow> bool" where
  "concrete (Primitive n) = (n \<in> set primitive_names)"
| "concrete (ArrayOf t) = concrete t"
| "concrete (UnionOf ts) = list_all concrete ts"
| "concrete (InlineRecord fs) = list_all (\<lambda>f. concrete (snd f)) fs"
| "concrete LiteralNull = True"
| "concrete LiteralUndefined = True"
| "concrete NeverArray = True"
| "concrete UnknownArray = True"

fun concrete_declaration :: "TypeDeclaration \<Rightarrow> bool" where
  "concrete_declaration (Alias n t) = concrete t"
| "concrete_declaration (RecordType n fs) = list_all (\<lambda>f. concrete (snd (snd f))) fs"

text \<open>
  The type expression of a value: the recursive inference of the specification
  (section 4.1, step 5), with the primitive names and the keys the code computes.
\<close>

fun typeExprOf :: "platform \<Rightarrow> jsval \<Rightarrow> bool \<Rightarrow> TypeExpr" where
  "typeExprOf P JNull strict =
     (if strict then LiteralNull else UnionOf [LiteralNull, LiteralUndefined])"
| "typeExprOf P JUndefined strict = LiteralUndefined"
| "typeExprOf P (JArr items) strict =
     (if items = [] then (if strict then NeverArray else UnknownArray)
      else (let types = Set_spread (map (inferPrimitiveType P) items)
            in if length types = 1 then ArrayOf (Primitive (types ! 0))
               else ArrayOf (UnionOf (map Primitive types))))"
| "typeExprOf P (JObj entries) strict =
     InlineRecord (map (\<lambda>kv. (safeKey (fst kv), typeExprOf P (snd kv) strict)) entries)"
| "typeExprOf P v strict = Primitive (inferPrimitiveType P v)"

text \<open>
  The type the root of an array gets from the type of its first element: the code
  appends \<^verbatim>\<open>[]\<close> to the text of that type, which binds to the last member when the
  type is a union.
\<close>

fun array_suffix :: "TypeExpr \<Rightarrow> TypeExpr" where
  "array_suffix (UnionOf ts) =
     (if ts = [] then ArrayOf (UnionOf ts) else UnionOf (butlast ts @ [ArrayOf (last ts)]))"
| "array_suffix t = ArrayOf t"

text \<open>
  The declaration of a root value (section 4.1, steps 1 to 4); \<open>ro\<close> is the read-only
  flag of the fields.
\<close>

fun declarationOf :: "platform \<Rightarrow> string \<Rightarrow> jsval \<Rightarrow> bool \<Rightarrow> bool \<Rightarrow> TypeDeclaration" where
  "declarationOf P name JNull strict ro = Alias name LiteralNull"
| "declarationOf P name (JArr items) strict ro =
     (if items = [] then Alias name UnknownArray
      else Alias name (array_suffix (typeExprOf P (items ! 0) strict)))"
| "declarationOf P name (JObj entries) strict ro =
     RecordType name (map (\<lambda>kv. (ro, safeKey (fst kv), typeExprOf P (snd kv) strict)) entries)"
| "declarationOf P name v strict ro = Alias name (typeExprOf P v strict)"

section \<open>A platform for the examples\<close>

text \<open>
  An instance of the platform, used where a theorem is applied to a concrete input.
  Its parser reads the four request lines below and the text of an empty array, and
  rejects every other text; its call stack has room for ten thousand nested calls.
\<close>

definition quoted :: "string \<Rightarrow> string" where
  "quoted s = [dquote] @ s @ [dquote]"

text \<open>\<^verbatim>\<open>{"id":7,"method":"notifications/initialized"}\<close>\<close>

definition initialized_line :: string where
  "initialized_line =
     ''{'' @ quoted ''id'' @ '':7,'' @ quoted ''method'' @ '':''
     @ quoted ''notifications/initialized'' @ ''}''"

definition initialized_request :: jsval where
  "initialized_request =
     JObj [(''id'', JNum 7), (''method'', JStr ''notifications/initialized'')]"

text \<open>\<^verbatim>\<open>{"id":7,"method":"tools/call","params":{"name":"type_check","arguments":{}}}\<close>\<close>

definition unknown_tool_line :: string where
  "unknown_tool_line =
     ''{'' @ quoted ''id'' @ '':7,'' @ quoted ''method'' @ '':'' @ quoted ''tools/call'' @ '',''
     @ quoted ''params'' @ '':{'' @ quoted ''name'' @ '':'' @ quoted ''type_check'' @ '',''
     @ quoted ''arguments'' @ '':{}}}''"

definition unknown_tool_request :: jsval where
  "unknown_tool_request =
     JObj [(''id'', JNum 7), (''method'', JStr ''tools/call''),
           (''params'', JObj [(''name'', JStr ''type_check''), (''arguments'', JObj [])])]"

text \<open>\<^verbatim>\<open>{"id":7,"method":"resources/list"}\<close>\<close>

definition unknown_method_line :: string where
  "unknown_method_line =
     ''{'' @ quoted ''id'' @ '':7,'' @ quoted ''method'' @ '':'' @ quoted ''resources/list'' @ ''}''"

definition unknown_method_request :: jsval where
  "unknown_method_request = JObj [(''id'', JNum 7), (''method'', JStr ''resources/list'')]"

text \<open>
  \<^verbatim>\<open>{"method":"tools/call","params":{"name":"generate_types","arguments":{"data":"{"}}}\<close>:
  a notification whose handler throws, since the data is not the text of a JSON value.
\<close>

definition failing_notification_line :: string where
  "failing_notification_line =
     ''{'' @ quoted ''method'' @ '':'' @ quoted ''tools/call'' @ '',''
     @ quoted ''params'' @ '':{'' @ quoted ''name'' @ '':'' @ quoted ''generate_types'' @ '',''
     @ quoted ''arguments'' @ '':{'' @ quoted ''data'' @ '':'' @ quoted ''{'' @ ''}}}''"

definition failing_notification_request :: jsval where
  "failing_notification_request =
     JObj [(''method'', JStr ''tools/call''),
           (''params'', JObj [(''name'', JStr ''generate_types''),
                              (''arguments'', JObj [(''data'', JStr ''{'')])])]"

definition example_platform :: platform where
  "example_platform =
     \<lparr>JSON_parse =
        (\<lambda>s. if s = initialized_line then Inr initialized_request
             else if s = unknown_tool_line then Inr unknown_tool_request
             else if s = unknown_method_line then Inr unknown_method_request
             else if s = failing_notification_line then Inr failing_notification_request
             else if s = ''[]'' then Inr (JArr [])
             else Inl ''Unexpected end of JSON input''),
      URL_parses = (\<lambda>s. False),
      ToString =
        (\<lambda>v. case v of
               JObj entries \<Rightarrow>
                 (case map_of entries ''toString'' of
                    None \<Rightarrow> Inr ''[object Object]''
                  | Some f \<Rightarrow> Inl (TypeError ''Cannot convert object to primitive value''))
             | JNull \<Rightarrow> Inr ''null''
             | _ \<Rightarrow> Inr ''undefined''),
      nullish_message = (\<lambda>v k. ''Cannot read properties of undefined''),
      untyped_call = (\<lambda>tool args. Inl (TypeError ''code.includes is not a function'')),
      stack_room = 10000,
      overflow_message = ''Maximum call stack size exceeded''\<rparr>"

text \<open>The value of \<^verbatim>\<open>{"id":7,"method":{"toString":1}}\<close>: a method no template can render.\<close>

definition unprintable_method_request :: jsval where
  "unprintable_method_request =
     JObj [(''id'', JNum 7), (''method'', JObj [(''toString'', JNum 1)])]"

text \<open>The options \<^verbatim>\<open>{}\<close> and \<^verbatim>\<open>{ strict: true }\<close>, \<^verbatim>\<open>{ strict: false }\<close>.\<close>

definition no_options :: TypeGenerationOptions where
  "no_options =
     \<lparr>name_opt = None, strict_opt = None, readonly_opt = None,
      exactOptionalPropertyTypes_opt = None\<rparr>"

definition strict_options :: "bool \<Rightarrow> TypeGenerationOptions" where
  "strict_options b =
     \<lparr>name_opt = None, strict_opt = Some b, readonly_opt = None,
      exactOptionalPropertyTypes_opt = None\<rparr>"

section \<open>Facts about strings\<close>

lemma str_includes_iff_sublist: "str_includes s t \<longleftrightarrow> sublist t s"
  by (induction s) (auto simp: sublist_Cons_right)

lemma str_includes_trans:
  "str_includes s t \<Longrightarrow> str_includes t u \<Longrightarrow> str_includes s u"
  unfolding str_includes_iff_sublist by (rule sublist_order.order_trans)

lemma colon_any_includes_any: "str_includes s '': any'' \<Longrightarrow> str_includes s ''any''"
  by (erule str_includes_trans) simp

lemma prefix_join: "prefix x (join sep (x # xs))"
  by (cases xs) simp_all

lemma decimal_one: "decimal (Suc 0) = ''1''"
  by code_simp

lemma numbered_first: "numbered 0 (m # rest) = (''1. '' @ m) # numbered 1 rest"
  by (simp add: decimal_one del: decimal.simps)

section \<open>Facts about the type inference engine\<close>

lemma inferPrimitiveType_name: "inferPrimitiveType P v \<in> set primitive_names"
  by (cases v) (simp_all add: primitive_names_def)

lemma set_foldl_spread:
  "set (foldl (\<lambda>seen x. if x \<in> set seen then seen else seen @ [x]) acc xs) = set acc \<union> set xs"
  by (induction xs arbitrary: acc) auto

lemma set_Set_spread: "set (Set_spread xs) = set xs"
  by (simp add: Set_spread_def set_foldl_spread)

lemma render_primitives: "map (render \<circ> Primitive) ns = ns"
  by (induction ns) simp_all

lemma concrete_primitives:
  "set ns \<subseteq> set primitive_names \<Longrightarrow> list_all concrete (map Primitive ns)"
  by (induction ns) simp_all

lemma spread_names: "set (Set_spread (map (inferPrimitiveType P) items)) \<subseteq> set primitive_names"
  by (auto simp: set_Set_spread inferPrimitiveType_name)

text \<open>The text \<^verbatim>\<open>inferType\<close> builds is the rendering of the type expression.\<close>

lemma inferType_render: "inferType P v strict options = render (typeExprOf P v strict)"
proof (induction P v strict options rule: inferType.induct)
  case (3 P items strict options)
  then show ?case by (simp add: Let_def render_primitives)
next
  case (4 P entries strict options)
  then show ?case by (simp add: comp_def cong: map_cong)
qed simp_all

lemma concrete_typeExprOf: "concrete (typeExprOf P v strict)"
proof (induction P v strict rule: typeExprOf.induct)
  case (3 P items strict)
  have "Set_spread (map (inferPrimitiveType P) items) ! 0 \<in> set primitive_names"
    if "length (Set_spread (map (inferPrimitiveType P) items)) = 1"
    using that spread_names [of P items]
    by (cases "Set_spread (map (inferPrimitiveType P) items)") auto
  then show ?case by (simp add: Let_def concrete_primitives spread_names)
next
  case (4 P entries strict)
  then show ?case by (simp add: list_all_iff)
qed (simp_all add: inferPrimitiveType_name primitive_names_def)

lemma render_array_suffix:
  "render (array_suffix (typeExprOf P v strict)) = render (typeExprOf P v strict) @ ''[]''"
  by (cases v) (simp_all add: Let_def)

lemma concrete_array_suffix: "concrete t \<Longrightarrow> concrete (array_suffix t)"
  by (cases t) (auto simp: list_all_iff dest: in_set_butlastD)

text \<open>The text \<^verbatim>\<open>generateInterface\<close> builds is the rendering of the declaration.\<close>

lemma generateInterface_render:
  "generateInterface P name obj strict options
     = render_declaration (declarationOf P name obj strict (readonly_opt options = Some True))"
  by (cases obj)
    (simp_all add: inferType_render render_array_suffix properties_def Let_def comp_def)

lemma concrete_declarationOf: "concrete_declaration (declarationOf P name obj strict ro)"
  by (cases obj)
    (simp_all add: concrete_typeExprOf concrete_array_suffix list_all_iff
      inferPrimitiveType_name primitive_names_def)

lemma single_name:
  assumes "length (Set_spread (map (inferPrimitiveType P) items)) = 1"
  shows "Set_spread (map (inferPrimitiveType P) items) ! 0 \<in> set primitive_names"
  using assms spread_names [of P items]
  by (cases "Set_spread (map (inferPrimitiveType P) items)") auto

lemma inferType_never: "inferType P v strict options = ''never[]'' \<longleftrightarrow> v = JArr [] \<and> strict"
proof (cases v)
  case (JArr items)
  show ?thesis
  proof (cases "items = []")
    case True
    with JArr show ?thesis by simp
  next
    case False
    show ?thesis
    proof (cases "length (Set_spread (map (inferPrimitiveType P) items)) = 1")
      case True
      from single_name [OF True] have "Set_spread (map (inferPrimitiveType P) items) ! 0 \<noteq> ''never''"
        by (auto simp: primitive_names_def)
      with True False JArr show ?thesis by (simp add: Let_def)
    next
      case other: False
      with False JArr show ?thesis by (simp add: Let_def)
    qed
  qed
next
  case (JStr s)
  then show ?thesis by simp
next
  case (JNum n)
  then show ?thesis by simp
qed simp_all

lemma inferType_not_never_word: "inferType P v strict options \<noteq> ''never''"
proof (cases v)
  case (JArr items)
  then show ?thesis by (simp add: Let_def)
next
  case (JStr s)
  then show ?thesis by simp
next
  case (JNum n)
  then show ?thesis by simp
qed simp_all

lemma generateInterface_not_never:
  "generateInterface P name obj strict options \<noteq> ''type '' @ name @ '' = never[];''"
  by (cases obj) (simp_all add: inferType_not_never_word)

section \<open>Facts about the call stack of bounded depth\<close>

lemma fold_max_le: "fold max ns m \<le> r \<longleftrightarrow> m \<le> r \<and> (\<forall>n\<in>set ns. n \<le> (r::nat))"
  by (induction ns arbitrary: m) auto

lemma collect_all: "(\<And>x. x \<in> set xs \<Longrightarrow> f x = Inr (g x)) \<Longrightarrow> collect f xs = Inr (map g xs)"
  by (induction xs) simp_all

lemma collect_fail:
  "(\<And>x. x \<in> set xs \<Longrightarrow> f x = Inl e \<or> (\<exists>y. f x = Inr y)) \<Longrightarrow> \<exists>x\<in>set xs. f x = Inl e
   \<Longrightarrow> collect f xs = Inl e"
proof (induction xs)
  case Nil
  then show ?case by simp
next
  case (Cons x xs)
  show ?case
  proof (cases "f x")
    case (Inl a)
    with Cons.prems(1) [of x] show ?thesis by simp
  next
    case (Inr y)
    with Cons.prems(2) have "\<exists>x\<in>set xs. f x = Inl e" by auto
    with Cons.IH Cons.prems(1) have "collect f xs = Inl e" by simp
    with Inr show ?thesis by simp
  qed
qed

lemma inferType_within_eq:
  "inferType_within P room v strict options
     = (if needs_room v \<le> room then Inr (inferType P v strict options)
        else Inl (RangeError (overflow_message P)))"
proof (induction room arbitrary: v)
  case 0
  then show ?case by (cases v) simp_all
next
  case (Suc room)
  show ?case
  proof (cases v)
    case (JObj entries)
    let ?f = "\<lambda>kv. case inferType_within P room (snd kv) strict options of
                     Inl e \<Rightarrow> Inl e
                   | Inr t \<Rightarrow> Inr (safeKey (fst kv) @ '': '' @ t)"
    show ?thesis
    proof (cases "\<forall>kv\<in>set entries. needs_room (snd kv) \<le> room")
      case True
      then have "collect ?f entries
          = Inr (map (\<lambda>kv. safeKey (fst kv) @ '': '' @ inferType P (snd kv) strict options) entries)"
        by (intro collect_all) (simp add: Suc.IH)
      with True JObj show ?thesis by (simp add: fold_max_le)
    next
      case False
      have "collect ?f entries = Inl (RangeError (overflow_message P))"
      proof (rule collect_fail)
        fix x assume "x \<in> set entries"
        then show "?f x = Inl (RangeError (overflow_message P)) \<or> (\<exists>y. ?f x = Inr y)"
          by (simp add: Suc.IH)
      next
        from False show "\<exists>x\<in>set entries. ?f x = Inl (RangeError (overflow_message P))"
          by (auto simp: Suc.IH)
      qed
      with False JObj show ?thesis by (simp add: fold_max_le)
    qed
  qed simp_all
qed

lemma generateInterface_within_eq:
  "generateInterface_within P room name obj strict options
     = (if root_needs obj \<le> room then Inr (generateInterface P name obj strict options)
        else Inl (RangeError (overflow_message P)))"
proof (cases obj)
  case (JObj entries)
  let ?f = "\<lambda>kv. case inferType_within P room (snd kv) strict options of
                     Inl e \<Rightarrow> Inl e
                   | Inr propType \<Rightarrow>
                       (let readonly = (if readonly_opt options = Some True then ''readonly '' else []);
                            sk = safeKey (fst kv)
                        in Inr (''  '' @ readonly @ sk @ '': '' @ propType @ '';''))"
  show ?thesis
  proof (cases "\<forall>kv\<in>set entries. needs_room (snd kv) \<le> room")
    case True
    then have "collect ?f entries = Inr (properties P entries strict options)"
      unfolding properties_def by (intro collect_all) (simp add: inferType_within_eq Let_def)
    with True JObj show ?thesis by (simp add: fold_max_le)
  next
    case False
    have "collect ?f entries = Inl (RangeError (overflow_message P))"
    proof (rule collect_fail)
      fix x assume "x \<in> set entries"
      then show "?f x = Inl (RangeError (overflow_message P)) \<or> (\<exists>y. ?f x = Inr y)"
        by (simp add: inferType_within_eq Let_def)
    next
      from False show "\<exists>x\<in>set entries. ?f x = Inl (RangeError (overflow_message P))"
        by (auto simp: inferType_within_eq)
    qed
    with False JObj show ?thesis by (simp add: fold_max_le)
  qed
qed (simp_all add: inferType_within_eq)

lemma generate_within_eq:
  "generate_within P data options
     = (case parsed_data P data of
          Inl m \<Rightarrow> Inl (Error (''Invalid JSON data: '' @ m))
        | Inr parsed \<Rightarrow>
            (if root_needs parsed \<le> stack_room P
             then Inr (generateInterface P (declared_name options) parsed (is_strict options) options)
             else Inl (Error (''Invalid JSON data: '' @ overflow_message P))))"
  by (simp add: generate_within_def generateInterface_within_eq split: sum.split)

lemma needs_nested_object: "needs_room (nested_object n) = Suc n"
  by (induction n) simp_all

lemma root_needs_nested_object: "root_needs (nested_object (Suc n)) = Suc n"
  by (simp add: needs_nested_object)

lemma nested_object_not_string: "parsed_data P (nested_object n) = Inr (nested_object n)"
  by (cases n) (simp_all add: parsed_data_def)

lemma root_needs_deep: "root_needs (nested_object 10001) = 10001"
proof -
  have "(10001 :: nat) = Suc 10000" by simp
  then show ?thesis by (simp only: root_needs_nested_object)
qed

section \<open>Claims\<close>

text \<open>
  C1. The claim: for every message, \<^verbatim>\<open>analyzeTypeError\<close> returns a fix list that is not
  empty. The code enters the property category on the two substrings alone and fills
  the result only when the quoted pattern also matches: for the first message below the
  result has no fix and the empty explanation. The category of the names that cannot
  be found pushes its fixes under the same kind of test: the second message gets the
  explanation and no fix. Neither message reaches the generic category.
\<close>

theorem analyzeTypeError_no_fix:
  "analyzeTypeError ''Property does not exist'' = \<lparr>fixes' = [], explanation = []\<rparr>
   \<and> fixes' (analyzeTypeError ''Cannot find name foo'') = []"
  by (simp add: analyzeTypeError_def property_pattern_def name_pattern_def after_prefix_def
      apostrophe_def)

text \<open>
  C9. A snippet that contains the substring \<^verbatim>\<open>: any\<close> gets at least one strict-mode
  issue and at least one refactor advisory. The first rule of each list fires, so the
  list starts with its message; the text of the handler is the heading followed by the
  numbered list, which starts with that message as item 1, and so is not the sentinel
  text. The operation called with the snippet as its \<^verbatim>\<open>code\<close> argument returns the
  text of the handler.
\<close>

theorem colon_any_is_reported:
  assumes "str_includes code '': any''"
  shows "strict_issues code
           = (cross_mark @ '' Explicit `any` type found - violates strict mode'')
             # tl (strict_issues code)
         \<and> handleCheckStrict code
           = ''## '' @ gear @ ''  Strict Mode Compliance Check'' @ [newline, newline]
             @ join [newline] (numbered 0 (strict_issues code)) @ strict_recommendation
         \<and> prefix (''## '' @ gear @ ''  Strict Mode Compliance Check'' @ [newline, newline]
                   @ ''1. '' @ cross_mark @ '' Explicit `any` type found - violates strict mode'')
               (handleCheckStrict code)
         \<and> handleCheckStrict code \<noteq> strict_compliant
         \<and> refactor_suggestions code
           = (warning_sign @ ''  Replace `any` types with specific types or `unknown`'')
             # tl (refactor_suggestions code)
         \<and> handleRefactorSafe code
           = ''## '' @ arrows @ '' Type-Safe Refactoring Suggestions'' @ [newline, newline]
             @ join [newline] (numbered 0 (refactor_suggestions code))
         \<and> prefix (''## '' @ arrows @ '' Type-Safe Refactoring Suggestions'' @ [newline, newline]
                   @ ''1. '' @ warning_sign @ ''  Replace `any` types with specific types or `unknown`'')
               (handleRefactorSafe code)
         \<and> handleRefactorSafe code \<noteq> no_refactoring
         \<and> (\<not> nullish args \<and> js_get args ''code'' = JStr code \<longrightarrow>
               tool_text P (JStr ''check_strict'') args = Inr (handleCheckStrict code)
               \<and> tool_text P (JStr ''refactor_safe'') args = Inr (handleRefactorSafe code))"
proof -
  let ?issue = "cross_mark @ '' Explicit `any` type found - violates strict mode''"
  let ?advice = "warning_sign @ ''  Replace `any` types with specific types or `unknown`''"
  have any: "str_includes code ''any''"
    using assms by (rule colon_any_includes_any)
  have issues: "strict_issues code = ?issue # tl (strict_issues code)"
    using assms by (simp add: strict_issues_def)
  have suggestions: "refactor_suggestions code = ?advice # tl (refactor_suggestions code)"
    using any by (simp add: refactor_suggestions_def)
  have strict_text: "handleCheckStrict code
           = ''## '' @ gear @ ''  Strict Mode Compliance Check'' @ [newline, newline]
             @ join [newline] (numbered 0 (strict_issues code)) @ strict_recommendation"
    using issues by (cases "strict_issues code") (simp_all add: handleCheckStrict_def Let_def)
  have refactor_text: "handleRefactorSafe code
           = ''## '' @ arrows @ '' Type-Safe Refactoring Suggestions'' @ [newline, newline]
             @ join [newline] (numbered 0 (refactor_suggestions code))"
    using suggestions
    by (cases "refactor_suggestions code") (simp_all add: handleRefactorSafe_def Let_def)
  have first_issue: "prefix (''1. '' @ ?issue) (join [newline] (numbered 0 (strict_issues code)))"
    by (subst issues) (simp only: numbered_first prefix_join)
  have first_advice:
    "prefix (''1. '' @ ?advice) (join [newline] (numbered 0 (refactor_suggestions code)))"
    by (subst suggestions) (simp only: numbered_first prefix_join)
  have strict_prefix:
    "prefix (''## '' @ gear @ ''  Strict Mode Compliance Check'' @ [newline, newline]
              @ ''1. '' @ ?issue) (handleCheckStrict code)"
  proof -
    obtain rest where "join [newline] (numbered 0 (strict_issues code)) = (''1. '' @ ?issue) @ rest"
      using first_issue by (auto simp: prefix_def)
    then show ?thesis by (simp add: strict_text prefix_def)
  qed
  have refactor_prefix:
    "prefix (''## '' @ arrows @ '' Type-Safe Refactoring Suggestions'' @ [newline, newline]
              @ ''1. '' @ ?advice) (handleRefactorSafe code)"
  proof -
    obtain rest where
      "join [newline] (numbered 0 (refactor_suggestions code)) = (''1. '' @ ?advice) @ rest"
      using first_advice by (auto simp: prefix_def)
    then show ?thesis by (simp add: refactor_text prefix_def)
  qed
  have strict_no_sentinel: "handleCheckStrict code \<noteq> strict_compliant"
    by (simp add: strict_text strict_compliant_def check_mark_def)
  have refactor_no_sentinel: "handleRefactorSafe code \<noteq> no_refactoring"
    by (simp add: refactor_text no_refactoring_def check_mark_def)
  have operation: "tool_text P (JStr ''check_strict'') args = Inr (handleCheckStrict code)
               \<and> tool_text P (JStr ''refactor_safe'') args = Inr (handleRefactorSafe code)"
    if "\<not> nullish args" and "js_get args ''code'' = JStr code"
    using that by (simp add: tool_text_def with_string_argument_def)
  from issues suggestions strict_text refactor_text strict_prefix refactor_prefix
       strict_no_sentinel refactor_no_sentinel operation
  show ?thesis by blast
qed

theorem colon_any_is_reported_witness:
  "str_includes ''let x: any = 1;'' '': any''
   \<and> prefix (''## '' @ gear @ ''  Strict Mode Compliance Check'' @ [newline, newline]
             @ ''1. '' @ cross_mark @ '' Explicit `any` type found - violates strict mode'')
        (handleCheckStrict ''let x: any = 1;'')
   \<and> prefix (''## '' @ arrows @ '' Type-Safe Refactoring Suggestions'' @ [newline, newline]
             @ ''1. '' @ warning_sign @ ''  Replace `any` types with specific types or `unknown`'')
        (handleRefactorSafe ''let x: any = 1;'')
   \<and> tool_text example_platform (JStr ''check_strict'') (JObj [(''code'', JStr ''let x: any = 1;'')])
       = Inr (handleCheckStrict ''let x: any = 1;'')
   \<and> tool_text example_platform (JStr ''refactor_safe'') (JObj [(''code'', JStr ''let x: any = 1;'')])
       = Inr (handleRefactorSafe ''let x: any = 1;'')"
proof -
  have h: "str_includes ''let x: any = 1;'' '': any''" by simp
  have args: "\<not> nullish (JObj [(''code'', JStr ''let x: any = 1;'')])"
    "js_get (JObj [(''code'', JStr ''let x: any = 1;'')]) ''code'' = JStr ''let x: any = 1;''"
    by (simp_all add: nullish_def js_get_def)
  from h args colon_any_is_reported
                [OF h, of "JObj [(''code'', JStr ''let x: any = 1;'')]" example_platform]
  show ?thesis by blast
qed

text \<open>
  C2. The claim: for an empty array at the root, strict mode yields the never-array
  alias. \<^verbatim>\<open>generateInterface\<close> returns the unknown-array alias for every empty
  array at the root; in strict mode the result is not the never-array alias.
\<close>

theorem root_empty_array_strict_counterexample:
  "generate example_platform (JArr []) (strict_options True) = Inr ''type Generated = unknown[];''
   \<and> generate example_platform (JArr []) (strict_options True) \<noteq> Inr ''type Generated = never[];''
   \<and> is_strict (strict_options True)"
  by (simp add: generate_def parsed_data_def declared_name_def strict_options_def is_strict_def)

text \<open>
  C2, amended. For an empty array at the root, given as a value or as a text that
  parses to it, \<^verbatim>\<open>generate\<close> emits the unknown-array alias, whether the strict option
  is true, false or absent (\<^verbatim>\<open>null\<close> at the root gets the alias \<^verbatim>\<open>null\<close> in both modes
  as well). No root value gets the never-array alias. The type \<^verbatim>\<open>never[]\<close> is what
  \<^verbatim>\<open>inferType\<close>, which types the values below the root, gives a value exactly when the
  value is an empty array and the mode is strict.
\<close>

theorem root_empty_array_alias:
  "(parsed_data P data = Inr (JArr []) \<longrightarrow>
      generate P data options = Inr (''type '' @ declared_name options @ '' = unknown[];''))
   \<and> (parsed_data P data = Inr JNull \<longrightarrow>
      generate P data options = Inr (''type '' @ declared_name options @ '' = null;''))
   \<and> generate P data options \<noteq> Inr (''type '' @ declared_name options @ '' = never[];'')
   \<and> (inferType P v strict options = ''never[]'' \<longleftrightarrow> v = JArr [] \<and> strict)"
proof -
  have no_never: "generate P data options \<noteq> Inr (''type '' @ declared_name options @ '' = never[];'')"
  proof (cases "parsed_data P data")
    case (Inl m)
    then show ?thesis by (simp add: generate_def)
  next
    case (Inr parsed)
    from generateInterface_not_never [of P "declared_name options" parsed "is_strict options" options]
    show ?thesis using Inr by (simp add: generate_def)
  qed
  have roots: "(parsed_data P data = Inr (JArr []) \<longrightarrow>
      generate P data options = Inr (''type '' @ declared_name options @ '' = unknown[];''))
   \<and> (parsed_data P data = Inr JNull \<longrightarrow>
      generate P data options = Inr (''type '' @ declared_name options @ '' = null;''))"
    by (simp add: generate_def)
  from roots no_never inferType_never [of P v strict options] show ?thesis by blast
qed

theorem root_empty_array_alias_witness:
  "parsed_data example_platform (JStr ''[]'') = Inr (JArr [])
   \<and> generate example_platform (JStr ''[]'') (strict_options True)
       = Inr ''type Generated = unknown[];''
   \<and> generate example_platform (JStr ''[]'') (strict_options False)
       = Inr ''type Generated = unknown[];''
   \<and> generate example_platform JNull (strict_options False) = Inr ''type Generated = null;''
   \<and> inferType example_platform (JArr []) True (strict_options True) = ''never[]''"
proof -
  have parsed: "parsed_data example_platform (JStr ''[]'') = Inr (JArr [])"
    by (simp add: parsed_data_def example_platform_def initialized_line_def
        unknown_tool_line_def unknown_method_line_def failing_notification_line_def)
  have root_null: "parsed_data example_platform JNull = Inr JNull"
    by (simp add: parsed_data_def)
  from parsed root_null
       root_empty_array_alias
         [of example_platform "JStr ''[]''" "strict_options True" "JArr []" True]
       root_empty_array_alias [of example_platform "JStr ''[]''" "strict_options False"]
       root_empty_array_alias [of example_platform JNull "strict_options False"]
  show ?thesis by (simp add: declared_name_def strict_options_def)
qed

text \<open>
  C5. The claim: for the array \<^verbatim>\<open>[1, "a"]\<close> given to the generator, the element type
  is the union of \<^verbatim>\<open>number\<close> and \<^verbatim>\<open>string\<close>. At the root the code reads the first
  element only, so the claim fails there:
\<close>

theorem root_mixed_array_counterexample:
  "generate example_platform (JArr [JNum 1, JStr ''a'']) no_options
     = Inr ''type Generated = number[];''"
  by (simp add: generate_def parsed_data_def declared_name_def no_options_def)

text \<open>
  C5, amended. For the array \<^verbatim>\<open>[1, "a"]\<close> as a value below the root (the value of a
  field), the inferred type is the parenthesized union \<^verbatim>\<open>(number | string)[]\<close>, the
  members in the order of their first occurrence; a repeated member is listed once. At
  the root the type of the first element alone is used: \<^verbatim>\<open>number[]\<close>.
\<close>

theorem mixed_array_union:
  "inferType P (JArr [JNum 1, JStr ''a'']) strict options = ''(number | string)[]''
   \<and> inferType P (JArr [JNum 1, JStr ''a'', JNum 2, JStr ''b'']) strict options
       = ''(number | string)[]''
   \<and> generate P (JObj [(''x'', JArr [JNum 1, JStr ''a''])]) options
       = Inr (''interface '' @ declared_name options @ '' {'' @ [newline]
              @ ''  '' @ (if readonly_opt options = Some True then ''readonly '' else [])
              @ ''x: (number | string)[];'' @ [newline] @ ''}'')
   \<and> generate P (JArr [JNum 1, JStr ''a'']) options
       = Inr (''type '' @ declared_name options @ '' = number[];'')"
  by (simp add: Set_spread_def generate_def parsed_data_def properties_def safeKey_def
      needsQuotes_def identifier_pattern_def identifier_start_def char_between_def
      isReservedWord_def reserved_def)

theorem mixed_array_union_witness:
  "inferType example_platform (JArr [JNum 1, JStr ''a'']) True no_options = ''(number | string)[]''
   \<and> generate example_platform (JArr [JNum 1, JStr ''a'']) no_options
       = Inr ''type Generated = number[];''"
  using mixed_array_union [of example_platform True no_options]
  by (simp add: declared_name_def no_options_def)

text \<open>
  C6. The claim: \<^verbatim>\<open>generate\<close> raises the invalid-input error only for a string that
  does not parse, and returns a declaration for every value that is not a string. The
  \<^verbatim>\<open>try\<close> block holds the call of \<^verbatim>\<open>generateInterface\<close> too: for a value that nests
  objects more deeply than the call stack has room for, the range error of the
  recursive inference is caught and thrown again as the invalid-input error. The
  value below is an object, not a string, nested 10001 times, on a stack with room for
  10000 nested calls.
\<close>

theorem deep_value_counterexample:
  "parsed_data example_platform (nested_object 10001) = Inr (nested_object 10001)
   \<and> generate_within example_platform (nested_object 10001) no_options
       = Inl (Error ''Invalid JSON data: Maximum call stack size exceeded'')"
proof -
  have room: "stack_room example_platform = 10000"
    and overflow: "overflow_message example_platform = ''Maximum call stack size exceeded''"
    by (simp_all add: example_platform_def)
  show ?thesis
    by (simp add: generate_within_eq nested_object_not_string root_needs_deep room overflow)
qed

text \<open>
  C6, amended. \<^verbatim>\<open>generate\<close> raises the invalid-input error if and only if the data is
  a string that does not parse as JSON, or the value (the data itself, or what the
  string parses to) nests objects more deeply than the call stack has room for. The
  message is \<^verbatim>\<open>Invalid JSON data:\<close> followed by the message of the parser in the first
  case and by the message of the range error in the second. In every other case
  \<^verbatim>\<open>generate\<close> returns the text \<^verbatim>\<open>generateInterface\<close> builds for the value, which is
  the rendering of the declaration of the value.
\<close>

theorem generate_outcomes:
  "((\<exists>e. generate_within P data options = Inl e)
      \<longleftrightarrow> (\<exists>s m. data = JStr s \<and> JSON_parse P s = Inl m)
          \<or> (\<exists>parsed. parsed_data P data = Inr parsed \<and> stack_room P < root_needs parsed))
   \<and> (\<forall>s m. data = JStr s \<and> JSON_parse P s = Inl m \<longrightarrow>
        generate_within P data options = Inl (Error (''Invalid JSON data: '' @ m)))
   \<and> (\<forall>parsed. parsed_data P data = Inr parsed \<and> stack_room P < root_needs parsed \<longrightarrow>
        generate_within P data options
          = Inl (Error (''Invalid JSON data: '' @ overflow_message P)))
   \<and> (\<forall>parsed. parsed_data P data = Inr parsed \<and> root_needs parsed \<le> stack_room P \<longrightarrow>
        generate_within P data options
          = Inr (generateInterface P (declared_name options) parsed (is_strict options) options)
        \<and> generate_within P data options
          = Inr (render_declaration
                   (declarationOf P (declared_name options) parsed (is_strict options)
                      (readonly_opt options = Some True)))
        \<and> generate_within P data options = generate P data options)"
proof -
  have split: "(\<exists>s m. data = JStr s \<and> JSON_parse P s = Inl m) \<longleftrightarrow> (\<exists>m. parsed_data P data = Inl m)"
    by (cases data) (auto simp: parsed_data_def)
  have failed: "generate_within P data options = Inl (Error (''Invalid JSON data: '' @ m))"
    if "data = JStr s" and "JSON_parse P s = Inl m" for s m
    using that by (simp add: generate_within_eq parsed_data_def)
  have deep: "generate_within P data options
          = Inl (Error (''Invalid JSON data: '' @ overflow_message P))"
    if "parsed_data P data = Inr parsed" and "stack_room P < root_needs parsed" for parsed
    using that by (simp add: generate_within_eq)
  have returned: "generate_within P data options
          = Inr (generateInterface P (declared_name options) parsed (is_strict options) options)
        \<and> generate_within P data options
          = Inr (render_declaration
                   (declarationOf P (declared_name options) parsed (is_strict options)
                      (readonly_opt options = Some True)))
        \<and> generate_within P data options = generate P data options"
    if "parsed_data P data = Inr parsed" and "root_needs parsed \<le> stack_room P" for parsed
    using that by (simp add: generate_within_eq generate_def generateInterface_render)
  have raises: "(\<exists>e. generate_within P data options = Inl e)
      \<longleftrightarrow> (\<exists>s m. data = JStr s \<and> JSON_parse P s = Inl m)
          \<or> (\<exists>parsed. parsed_data P data = Inr parsed \<and> stack_room P < root_needs parsed)"
    unfolding split
    by (cases "parsed_data P data") (auto simp: generate_within_eq)
  from raises failed deep returned show ?thesis by blast
qed

theorem generate_outcomes_witness:
  "generate_within example_platform (JStr ''{'') no_options
     = Inl (Error ''Invalid JSON data: Unexpected end of JSON input'')
   \<and> generate_within example_platform (nested_object 10001) no_options
     = Inl (Error ''Invalid JSON data: Maximum call stack size exceeded'')
   \<and> generate_within example_platform (JStr ''[]'') no_options = Inr ''type Generated = unknown[];''
   \<and> generate_within example_platform (JNum 1) no_options = Inr ''type Generated = number;''"
proof -
  have parse: "JSON_parse example_platform ''{'' = Inl ''Unexpected end of JSON input''"
    "JSON_parse example_platform ''[]'' = Inr (JArr [])"
    by (simp_all add: example_platform_def initialized_line_def unknown_tool_line_def
        unknown_method_line_def failing_notification_line_def)
  have room: "stack_room example_platform = 10000"
    and overflow: "overflow_message example_platform = ''Maximum call stack size exceeded''"
    by (simp_all add: example_platform_def)
  note deep = root_needs_deep
  have first: "generate_within example_platform (JStr ''{'') no_options
     = Inl (Error ''Invalid JSON data: Unexpected end of JSON input'')"
    using generate_outcomes [of example_platform "JStr ''{''" no_options] parse by simp
  have second: "generate_within example_platform (nested_object 10001) no_options
     = Inl (Error ''Invalid JSON data: Maximum call stack size exceeded'')"
    using generate_outcomes [of example_platform "nested_object 10001" no_options]
      nested_object_not_string [of example_platform 10001] deep room overflow
    by simp
  have third: "generate_within example_platform (JStr ''[]'') no_options
     = Inr ''type Generated = unknown[];''"
    using generate_outcomes [of example_platform "JStr ''[]''" no_options] parse room
    by (simp add: parsed_data_def declared_name_def no_options_def)
  have fourth: "generate_within example_platform (JNum 1) no_options
     = Inr ''type Generated = number;''"
    using generate_outcomes [of example_platform "JNum 1" no_options] room
    by (simp add: parsed_data_def declared_name_def no_options_def)
  from first second third fourth show ?thesis by simp
qed



text \<open>
  C3. The claim: every request with an identifier gets exactly one response, which
  carries the identifier, for every method name and for
  \<^verbatim>\<open>notifications/initialized\<close> too. For that method \<^verbatim>\<open>handleRequest\<close> returns the
  empty object, and the line handler writes it: the one line written carries no
  identifier.
\<close>

theorem initialized_with_identifier_counterexample:
  "JSON_parse example_platform initialized_line = Inr initialized_request
   \<and> carries_identifier initialized_request
   \<and> on_line example_platform initialized_line = [Stdout EmptyResponse]
   \<and> response_id EmptyResponse \<noteq> Some (js_get initialized_request ''id'')"
  by (simp add: on_line_def example_platform_def get_prop_def nullish_def
      initialized_request_def js_get_def handleRequest_def carries_identifier_def)

text \<open>
  C3, amended. Every request with an identifier gets exactly one line on the protocol
  channel. For every method other than \<^verbatim>\<open>notifications/initialized\<close> that line is a
  response that carries the identifier of the request, with a result or with an error
  of a code and a message.
\<close>

theorem identified_request_gets_one_response:
  assumes "JSON_parse P line = Inr request"
    and "carries_identifier request"
  shows "on_line P line = [Stdout (handleRequest P request)]
         \<and> (js_get request ''method'' \<noteq> JStr ''notifications/initialized'' \<longrightarrow>
              response_id (handleRequest P request) = Some (js_get request ''id''))"
proof -
  have written: "on_line P line = [Stdout (handleRequest P request)]"
    using assms by (simp add: on_line_def get_prop_def carries_identifier_def)
  have carried: "response_id (handleRequest P request) = Some (js_get request ''id'')"
    if "js_get request ''method'' \<noteq> JStr ''notifications/initialized''"
    using that
    by (simp add: handleRequest_def initialize_def listTools_def callTool_def Let_def
        split: sum.split)
  from written carried show ?thesis by simp
qed

theorem identified_request_gets_one_response_witness:
  "JSON_parse example_platform unknown_method_line = Inr unknown_method_request
   \<and> carries_identifier unknown_method_request
   \<and> on_line example_platform unknown_method_line
       = [Stdout (handleRequest example_platform unknown_method_request)]
   \<and> response_id (handleRequest example_platform unknown_method_request) = Some (JNum 7)"
proof -
  have parsed: "JSON_parse example_platform unknown_method_line = Inr unknown_method_request"
    by (simp add: example_platform_def initialized_line_def unknown_tool_line_def
        unknown_method_line_def quoted_def)
  have identified: "carries_identifier unknown_method_request"
    by (simp add: carries_identifier_def unknown_method_request_def nullish_def js_get_def)
  from identified_request_gets_one_response [OF parsed identified] parsed identified
  show ?thesis by (simp add: unknown_method_request_def js_get_def)
qed

text \<open>
  C4. The claim: a tool name outside the six of the table gets the method-not-found
  code. \<^verbatim>\<open>callTool\<close> throws an error for such a name inside its \<^verbatim>\<open>try\<close> block, and
  the \<^verbatim>\<open>catch\<close> block answers with the code of an internal failure.
\<close>

theorem unknown_tool_counterexample:
  "on_line example_platform unknown_tool_line
     = [Stdout (ErrorResponse (JNum 7) (- 32603) ''Unknown tool: type_check'')]"
  by (simp add: on_line_def example_platform_def get_prop_def nullish_def
      unknown_tool_request_def js_get_def handleRequest_def unknown_tool_line_def
      initialized_line_def quoted_def callTool_def tool_text_def to_text_def)

text \<open>
  C4, amended. A request whose method is a string other than the four the server knows
  gets the error response with the code -32601 and the message that names the method;
  a method that is not a string gets the same with the text the template literal gives
  it, and the code -32603 with the message of the type error when the template literal
  throws. A \<^verbatim>\<open>tools/call\<close> request whose tool name is a string other than the six gets
  the error response with the code -32603 and the message that names the tool. That is
  the code of every failure while a tool is called: whatever the handler throws, and
  what reading the tool name from absent parameters throws, is answered with -32603
  and the message of the error. Every one of these responses carries the identifier
  of the request, and the two codes differ.
\<close>

theorem unknown_operation_responses:
  "(js_get request ''method'' = JStr m \<and> m \<notin> set method_names \<longrightarrow>
      handleRequest P request
        = ErrorResponse (js_get request ''id'') (- 32601) (''Method not found: '' @ m))
   \<and> (js_get request ''method'' \<notin> JStr ` set method_names \<longrightarrow>
      handleRequest P request
        = (case to_text P (js_get request ''method'') of
             Inr t \<Rightarrow> ErrorResponse (js_get request ''id'') (- 32601) (''Method not found: '' @ t)
           | Inl e \<Rightarrow> ErrorResponse (js_get request ''id'') (- 32603) (message e)))
   \<and> (js_get request ''method'' = JStr ''tools/call''
        \<and> \<not> nullish (js_get request ''params'')
        \<and> js_get (js_get request ''params'') ''name'' = JStr n \<and> n \<notin> set tool_names \<longrightarrow>
      handleRequest P request
        = ErrorResponse (js_get request ''id'') (- 32603) (''Unknown tool: '' @ n))
   \<and> (js_get request ''method'' = JStr ''tools/call''
        \<and> \<not> nullish (js_get request ''params'')
        \<and> tool_text P (js_get (js_get request ''params'') ''name'')
              (js_get (js_get request ''params'') ''arguments'') = Inl e \<longrightarrow>
      handleRequest P request = ErrorResponse (js_get request ''id'') (- 32603) (message e))
   \<and> (js_get request ''method'' = JStr ''tools/call''
        \<and> nullish (js_get request ''params'') \<longrightarrow>
      handleRequest P request
        = ErrorResponse (js_get request ''id'') (- 32603)
            (nullish_message P (js_get request ''params'') ''name''))
   \<and> (- 32601 :: int) \<noteq> - 32603"
  by (auto simp: handleRequest_def method_names_def tool_names_def callTool_def tool_text_def
      to_text_def Let_def)

theorem unknown_operation_responses_witness:
  "handleRequest example_platform unknown_method_request
     = ErrorResponse (JNum 7) (- 32601) ''Method not found: resources/list''
   \<and> handleRequest example_platform unprintable_method_request
     = ErrorResponse (JNum 7) (- 32603) ''Cannot convert object to primitive value''
   \<and> handleRequest example_platform unknown_tool_request
     = ErrorResponse (JNum 7) (- 32603) ''Unknown tool: type_check''"
  using unknown_operation_responses
          [of unknown_method_request "''resources/list''" example_platform]
        unknown_operation_responses [of unprintable_method_request _ example_platform]
        unknown_operation_responses
          [of unknown_tool_request _ example_platform "''type_check''"]
  by (simp add: unknown_method_request_def unknown_tool_request_def
      unprintable_method_request_def js_get_def method_names_def tool_names_def nullish_def
      to_text_def example_platform_def)

text \<open>
  C8. A request without an identifier writes nothing on the protocol channel: the
  request is handled and the response dropped, also when the handler has thrown (what
  it throws is caught inside \<^verbatim>\<open>handleRequest\<close> and becomes part of the response that
  is dropped). A line that parses to \<^verbatim>\<open>null\<close> writes on the standard error only.
\<close>

theorem notification_is_never_answered:
  assumes "JSON_parse P line = Inr request"
    and "\<not> carries_identifier request"
  shows "stdout_of (on_line P line) = []"
  using assms
  by (cases "nullish request") (simp_all add: on_line_def get_prop_def carries_identifier_def)

theorem notification_is_never_answered_witness:
  "JSON_parse example_platform failing_notification_line = Inr failing_notification_request
   \<and> \<not> carries_identifier failing_notification_request
   \<and> handleRequest example_platform failing_notification_request
       = ErrorResponse JUndefined (- 32603) ''Invalid JSON data: Unexpected end of JSON input''
   \<and> stdout_of (on_line example_platform failing_notification_line) = []"
proof -
  have parsed: "JSON_parse example_platform failing_notification_line
                  = Inr failing_notification_request"
    by (simp add: example_platform_def initialized_line_def unknown_tool_line_def
        unknown_method_line_def failing_notification_line_def quoted_def)
  have anonymous: "\<not> carries_identifier failing_notification_request"
    by (simp add: carries_identifier_def failing_notification_request_def js_get_def)
  have thrown: "handleRequest example_platform failing_notification_request
       = ErrorResponse JUndefined (- 32603) ''Invalid JSON data: Unexpected end of JSON input''"
    by (simp add: example_platform_def nullish_def failing_notification_request_def js_get_def
        handleRequest_def unknown_tool_line_def unknown_method_line_def initialized_line_def
        failing_notification_line_def quoted_def callTool_def tool_text_def
        generate_types_call_def optional_string_def optional_bool_def handleGenerateTypes_def
        generate_within_def parsed_data_def)
  from notification_is_never_answered [OF parsed anonymous] parsed anonymous thrown
  show ?thesis by simp
qed

text \<open>
  C7. The generator never renders the type \<^verbatim>\<open>any\<close>. The text \<^verbatim>\<open>inferType\<close> gives a
  value is the rendering of a type expression all of whose primitives are among
  \<^verbatim>\<open>string\<close>, \<^verbatim>\<open>number\<close>, \<^verbatim>\<open>boolean\<close>, \<^verbatim>\<open>bigint\<close>, \<^verbatim>\<open>symbol\<close> and \<^verbatim>\<open>unknown\<close>,
  and every text \<^verbatim>\<open>generate\<close> returns is the rendering of a declaration whose alias or
  whose fields have such types. The name of a value whose runtime tag the generator
  does not know is \<^verbatim>\<open>unknown\<close>; \<^verbatim>\<open>any\<close> is not a concrete type.
\<close>

theorem generated_types_are_concrete:
  "inferType P v strict options = render (typeExprOf P v strict)
   \<and> concrete (typeExprOf P v strict)
   \<and> (\<forall>declaration. generate P data options = Inr declaration \<longrightarrow>
        (\<exists>parsed. parsed_data P data = Inr parsed
           \<and> declaration
               = render_declaration
                   (declarationOf P (declared_name options) parsed (is_strict options)
                      (readonly_opt options = Some True))
           \<and> concrete_declaration
                (declarationOf P (declared_name options) parsed (is_strict options)
                   (readonly_opt options = Some True))))
   \<and> inferPrimitiveType P v \<noteq> ''any''
   \<and> inferPrimitiveType P JNull = ''unknown''
   \<and> \<not> concrete (Primitive ''any'')"
proof -
  have returned: "\<exists>parsed. parsed_data P data = Inr parsed
           \<and> generated
               = render_declaration
                   (declarationOf P (declared_name options) parsed (is_strict options)
                      (readonly_opt options = Some True))
           \<and> concrete_declaration
                (declarationOf P (declared_name options) parsed (is_strict options)
                   (readonly_opt options = Some True))"
    if "generate P data options = Inr generated" for generated
    using that
    by (cases "parsed_data P data")
      (auto simp: generate_def generateInterface_render concrete_declarationOf)
  have named: "inferPrimitiveType P v \<noteq> ''any''"
    using inferPrimitiveType_name [of P v] by (auto simp: primitive_names_def)
  from returned named show ?thesis
    by (simp add: inferType_render concrete_typeExprOf primitive_names_def)
qed

theorem generated_types_are_concrete_witness:
  "generate example_platform (JObj [(''any'', JArr [JNull]), (''id'', JNum 1)]) no_options
     = Inr (''interface Generated {'' @ [newline]
            @ ''  '' @ quoted ''any'' @ '': unknown[];'' @ [newline]
            @ ''  id: number;'' @ [newline] @ ''}'')
   \<and> (\<exists>parsed. parsed_data example_platform (JObj [(''any'', JArr [JNull]), (''id'', JNum 1)])
                 = Inr parsed
         \<and> ''interface Generated {'' @ [newline]
            @ ''  '' @ quoted ''any'' @ '': unknown[];'' @ [newline]
            @ ''  id: number;'' @ [newline] @ ''}''
           = render_declaration
               (declarationOf example_platform ''Generated'' parsed True False)
         \<and> concrete_declaration (declarationOf example_platform ''Generated'' parsed True False))"
proof -
  have returned:
    "generate example_platform (JObj [(''any'', JArr [JNull]), (''id'', JNum 1)]) no_options
       = Inr (''interface Generated {'' @ [newline]
              @ ''  '' @ quoted ''any'' @ '': unknown[];'' @ [newline]
              @ ''  id: number;'' @ [newline] @ ''}'')"
    by (simp add: generate_def parsed_data_def declared_name_def no_options_def is_strict_def
        properties_def Set_spread_def safeKey_def needsQuotes_def identifier_pattern_def
        identifier_start_def identifier_part_def char_between_def isReservedWord_def
        reserved_def quoted_def)
  from generated_types_are_concrete
         [of example_platform JNull True no_options
             "JObj [(''any'', JArr [JNull]), (''id'', JNum 1)]"]
       returned
  show ?thesis
    by (simp add: declared_name_def no_options_def is_strict_def)
qed

end
